theory Spec2Isabelle
  imports Complex_Main "HOL-Library.Product_Lexorder"
begin

section \<open>Dates and times\<close>

text \<open>
  A naive Python \<^verbatim>\<open>datetime\<close> is modelled by the number of microseconds since
  0001-01-01T00:00:00, a \<^verbatim>\<open>date\<close> by the number of days since 0001-01-01 and a
  \<^verbatim>\<open>timedelta\<close> by a number of microseconds. 0001-01-01 is a Monday, so
  \<^verbatim>\<open>weekday()\<close> (Monday = 0) is the day number modulo 7. The bounds of Python's
  calendar (years 1 to 9999) are not modelled. The clock is read once per request:
  every \<^verbatim>\<open>datetime.now()\<close> of one call is the same instant, a parameter of the model.
\<close>

type_synonym datetime = int
type_synonym date = int

datatype py_error =
    ValueError_no_plan int
  | ValueError_hour
  | TypeError_none
  | RuntimeError_no_solution

definition us_per_hour :: int where
  "us_per_hour = 3600000000"

definition us_per_day :: int where
  "us_per_day = 24 * us_per_hour"

definition timedelta :: "int \<Rightarrow> int \<Rightarrow> int" where
  \<comment> \<open>\<^verbatim>\<open>timedelta(days=d, hours=h)\<close>\<close>
  "timedelta d h = d * us_per_day + h * us_per_hour"

definition timedelta_days :: "int \<Rightarrow> int" where
  \<comment> \<open>the \<^verbatim>\<open>.days\<close> attribute of a timedelta (floor division)\<close>
  "timedelta_days td = td div us_per_day"

definition date_of :: "datetime \<Rightarrow> date" where
  "date_of t = t div us_per_day"

definition weekday :: "datetime \<Rightarrow> int" where
  "weekday t = date_of t mod 7"

definition hour_of :: "datetime \<Rightarrow> int" where
  "hour_of t = (t mod us_per_day) div us_per_hour"

definition combine_min :: "date \<Rightarrow> datetime" where
  \<comment> \<open>\<^verbatim>\<open>datetime.combine(d, datetime.min.time())\<close>\<close>
  "combine_min d = d * us_per_day"

definition replace_hour :: "datetime \<Rightarrow> int \<Rightarrow> py_error + datetime" where
  \<comment> \<open>\<^verbatim>\<open>t.replace(hour=h, minute=0, second=0, microsecond=0)\<close>; raises ValueError
      unless \<^verbatim>\<open>0 <= h <= 23\<close>\<close>
  "replace_hour t h =
     (if 0 \<le> h \<and> h \<le> 23 then Inr (combine_min (date_of t) + timedelta 0 h)
      else Inl ValueError_hour)"

section \<open>Python floats\<close>

text \<open>
  A finite Python \<^verbatim>\<open>float\<close> (IEEE 754 binary64) is modelled by the pair
  \<^verbatim>\<open>as_integer_ratio()\<close> gives for it: numerator and positive denominator in lowest
  terms. Every operation computes the exact rational result and rounds it to the
  nearest binary64 value, ties to the even significand, with gradual underflow below
  \<^verbatim>\<open>2**-1022\<close>. Infinities and NaN are not modelled: they need a value of
  \<^verbatim>\<open>2**1024\<close>, out of reach of a count of bookings.
\<close>

type_synonym pyfloat = "int \<times> int"

function bit_length :: "int \<Rightarrow> int" where
  \<comment> \<open>\<^verbatim>\<open>n.bit_length()\<close> of a positive integer\<close>
  "bit_length n = (if n \<le> 0 then 0 else 1 + bit_length (n div 2))"
  by pat_completeness auto

termination bit_length
  by (relation "measure nat") auto

declare bit_length.simps [simp del]

definition binary_exponent :: "int \<Rightarrow> int \<Rightarrow> int" where
  \<comment> \<open>the \<^verbatim>\<open>e\<close> with \<^verbatim>\<open>2**e <= p/q < 2**(e+1)\<close>, for positive \<^verbatim>\<open>p\<close> and \<^verbatim>\<open>q\<close>\<close>
  "binary_exponent p q =
     (let d = bit_length p - bit_length q
      in if (if d \<ge> 0 then 2 ^ nat d * q \<le> p else q \<le> 2 ^ nat (- d) * p) then d else d - 1)"

definition round_half_even :: "int \<Rightarrow> int \<Rightarrow> int" where
  \<comment> \<open>the integer nearest to \<^verbatim>\<open>num/den\<close> (\<^verbatim>\<open>den\<close> positive), a tie going to the even one\<close>
  "round_half_even num den =
     (let f = num div den; r = num mod den
      in if 2 * r < den then f else if 2 * r > den then f + 1
         else if even f then f else f + 1)"

definition lowest_terms :: "int \<Rightarrow> int \<Rightarrow> int \<times> int" where
  "lowest_terms p q = (let g = gcd p q in (p div g, q div g))"

definition round_double :: "int \<Rightarrow> int \<Rightarrow> pyfloat" where
  \<comment> \<open>the binary64 value nearest to \<^verbatim>\<open>p/q\<close> (\<^verbatim>\<open>q\<close> positive): a multiple of
      \<^verbatim>\<open>2**k\<close> with a significand of at most 53 bits\<close>
  "round_double p q =
     (if p = 0 then (0, 1)
      else let k = max (binary_exponent \<bar>p\<bar> q - 52) (- 1074)
           in if k \<ge> 0 then (round_half_even p (q * 2 ^ nat k) * 2 ^ nat k, 1)
              else lowest_terms (round_half_even (p * 2 ^ nat (- k)) q) (2 ^ nat (- k)))"

definition float_of_int :: "int \<Rightarrow> pyfloat" where
  \<comment> \<open>\<^verbatim>\<open>float(n)\<close>, also the conversion of an \<^verbatim>\<open>int\<close> operand of a float operation\<close>
  "float_of_int n = round_double n 1"

definition fadd :: "pyfloat \<Rightarrow> pyfloat \<Rightarrow> pyfloat" where
  "fadd x y = round_double (fst x * snd y + fst y * snd x) (snd x * snd y)"

definition fsub :: "pyfloat \<Rightarrow> pyfloat \<Rightarrow> pyfloat" where
  "fsub x y = round_double (fst x * snd y - fst y * snd x) (snd x * snd y)"

definition fmul :: "pyfloat \<Rightarrow> pyfloat \<Rightarrow> pyfloat" where
  "fmul x y = round_double (fst x * fst y) (snd x * snd y)"

definition fdiv :: "pyfloat \<Rightarrow> pyfloat \<Rightarrow> pyfloat" where
  \<comment> \<open>\<^verbatim>\<open>x / y\<close> for a positive divisor, as it is wherever the scheduler divides\<close>
  "fdiv x y = round_double (fst x * snd y) (snd x * fst y)"

definition int_of_float :: "pyfloat \<Rightarrow> int" where
  \<comment> \<open>\<^verbatim>\<open>int(x)\<close>: truncation towards zero\<close>
  "int_of_float x = (if fst x \<ge> 0 then fst x div snd x else - ((- fst x) div snd x))"

section \<open>Domain records (app/models)\<close>

record schedule_slot =
  slot_id :: int
  day_of_week :: int
  start_hour :: int
  slot_coach_id :: int
  capacity :: int

text \<open>
  \<^verbatim>\<open>ClientPlan\<close> is a mapped class: every plan object has the attribute
  \<^verbatim>\<open>sessions_per_week\<close>, and \<open>None\<close> stands for the Python value \<^verbatim>\<open>None\<close> of a plan
  whose weekly limit is not set.
\<close>

record client_plan =
  plan_client_id :: int
  sessions_per_week :: "int option"
  assigned_coach_id :: int

record client_preference =
  preferred_start_hour :: "int option"
  preferred_end_hour :: "int option"
  is_flexible :: bool

record booking =
  booking_client_id :: int
  booking_coach_id :: int
  booking_date :: datetime
  booking_status :: string

text \<open>
  The persistence layer (app/crud/schedule.py and the ORM session) is a collaborator:
  the queries of the scheduler that go through \<^verbatim>\<open>schedule_crud\<close> are fields of the
  record, the booking table is a list that the scheduler's own queries filter.
\<close>

record database =
  get_client_plan :: "int \<Rightarrow> client_plan option"
  get_client_preference :: "int \<Rightarrow> client_preference option"
  get_available_slots_for_client :: "int \<Rightarrow> datetime \<Rightarrow> schedule_slot list"
  bookings :: "booking list"
  coach_full_name :: "int \<Rightarrow> string option"

record scheduling_data =
  sd_client_id :: int
  sd_client_plan :: client_plan
  sd_client_preference :: "client_preference option"
  available_slots :: "schedule_slot list"
  existing_bookings :: "booking list"
  coach_workload :: "(int \<times> pyfloat) list"
  time_window :: "datetime \<times> datetime"
  planning_horizon :: int

section \<open>The CP-SAT model and the external solver\<close>

text \<open>
  One Boolean variable per slot id. The three shapes of linear constraint the scheduler
  posts: \<open>sum(x[i] for i in ids) == n\<close>, \<open>x[i] == 0\<close> and \<open>x[i] + x[j] <= 1\<close>.
  The objective is a list of terms \<open>x[i] * c\<close> to be maximised.
\<close>

datatype constr =
    ExactCount "int list" int
  | ForceZero int
  | AtMostOne int int

record cp_model =
  variables :: "int list"
  constraints :: "constr list"
  objective :: "(int \<times> int) list"

datatype cp_status = UNKNOWN | MODEL_INVALID | FEASIBLE | INFEASIBLE | OPTIMAL

text \<open>
  What OR-tools hands back after \<^verbatim>\<open>Solve\<close>: the status, \<^verbatim>\<open>Value(var)\<close> (which may
  raise when no solution is held) and \<^verbatim>\<open>ObjectiveValue()\<close>. The solver itself is a
  parameter of the scheduler.
\<close>

record cp_response =
  response_status :: cp_status
  response_value :: "int \<Rightarrow> py_error + int"
  response_objective :: int

type_synonym cp_solver = "cp_model \<Rightarrow> cp_response"

fun holds :: "(int \<Rightarrow> int) \<Rightarrow> constr \<Rightarrow> bool" where
  "holds v (ExactCount ids n) = (sum_list (map v ids) = n)"
| "holds v (ForceZero i) = (v i = 0)"
| "holds v (AtMostOne i j) = (v i + v j \<le> 1)"

definition value_of :: "cp_response \<Rightarrow> int \<Rightarrow> int" where
  "value_of r i = (case response_value r i of Inl e \<Rightarrow> 0 | Inr v \<Rightarrow> v)"

definition has_solution :: "cp_status \<Rightarrow> bool" where
  "has_solution st = (st = OPTIMAL \<or> st = FEASIBLE)"

definition sound_response :: "cp_model \<Rightarrow> cp_response \<Rightarrow> bool" where
  \<comment> \<open>with status OPTIMAL or FEASIBLE every variable reads 0 or 1 and every posted
      constraint holds\<close>
  "sound_response m r =
     (if has_solution (response_status r)
      then list_all (\<lambda>i. response_value r i = Inr 0 \<or> response_value r i = Inr 1) (variables m)
           \<and> list_all (holds (value_of r)) (constraints m)
      else True)"

definition solver_sound :: "cp_solver \<Rightarrow> bool" where
  "solver_sound solver = (\<forall>m. sound_response m (solver m))"

text \<open>
  \<^verbatim>\<open>Value\<close> raises whenever the solver holds no solution (the behaviour of OR-tools
  after a status other than OPTIMAL and FEASIBLE); a hypothesis where it is needed.
\<close>

definition raises_without_solution :: "cp_solver \<Rightarrow> bool" where
  "raises_without_solution solver =
     (\<forall>m i. has_solution (response_status (solver m)) \<or> isl (response_value (solver m) i))"


section \<open>Results, reasons and diagnostic messages\<close>

datatype suggestion_reason =
    PERFECT_PREFERENCE_MATCH
  | GOOD_PREFERENCE_MATCH
  | COACH_AVAILABILITY
  | CAPACITY_AVAILABLE
  | RECOVERY_COMPLIANT
  | LOAD_BALANCING
  | ONLY_OPTION

text \<open>
  The f-strings of the scheduler are modelled by constructors that carry the values
  the text is formatted with, in the order in which the text shows them.
\<close>

datatype this_week_text =
    This_week_left int
  | This_week_complete int

datatype next_week_text =
    Next_week_available int
  | Next_week_partial int int int
  | Next_week_full int

datatype week_status = Week_status this_week_text next_week_text

datatype shortfall_reason =
    Recovery_shortfall nat
  | Preference_shortfall bool int "int option" nat

datatype shortfall_analysis =
    Reasons "shortfall_reason list"
  | Multiple_constraints

datatype failure_item =
    No_slots_item
  | Quota_reached_item week_status
  | Quota_would_be_exceeded_item week_status
  | Recovery_item nat datetime
  | Preference_mismatch_item int "int option" int int
  | Insufficient_overlap_item int "int option" int int
  | Generic_item int

datatype message =
    Week_status_msg week_status
  | Capacity_msg
  | Recovery_msg int
  | Coach_availability_msg
  | Current_time_msg nat
  | Quota_used_msg int int
  | Quota_remaining_msg int int int
  | Resuggestion_msg nat
  | Preference_msg
  | Limit_reached_msg int int
  | Cannot_book_msg week_status
  | No_slots_msg
  | Partial_warning_msg int int shortfall_analysis
  | Failure_analysis_msg "failure_item list"
  | Error_msg py_error

text \<open>
  \<^verbatim>\<open>solver_status\<close> is a string in the source. The five strings of \<^verbatim>\<open>_solve_model\<close>
  are kept as strings; the formatted and the fixed texts of the other results are
  constructors.
\<close>

datatype status_text =
    Solver_status string
  | PARTIAL_SOLUTION int
  | WEEKLY_QUOTA_EXCEEDED
  | NO_AVAILABILITY
  | NO_SOLUTION_DETAILED
  | ERROR py_error

record suggestion =
  sg_slot_id :: int
  sg_coach_id :: int
  sg_coach_name :: string
  sg_day_of_week :: int
  sg_hour :: int
  date_suggestion :: date
  sg_confidence_score :: real
  capacity_available :: int
  optimization_score :: int

text \<open>\<^verbatim>\<open>solve_time_ms\<close>, the elapsed wall-clock time, is not part of the model.\<close>

record scheduling_result =
  result_client_id :: int
  suggested_slots :: "suggestion list"
  total_suggestions :: nat
  solver_status :: status_text
  confidence_score :: real
  constraints_satisfied :: "message list"
  reasons :: "suggestion_reason list"

record solver_result =
  sr_status :: string
  sr_confidence :: real
  sr_objective_value :: int

text \<open>The mutable fields of \<^verbatim>\<open>CPSATScheduler\<close> that one request threads through.\<close>

record scheduler =
  model :: cp_model
  constraint_explanations :: "message list"

definition min_recovery_hours :: int where
  "min_recovery_hours = 24"

definition max_suggestions :: nat where
  "max_suggestions = 5"

section \<open>Control-flow helpers\<close>

text \<open>A loop that appends to a list and is left by the first exception.\<close>

fun collect :: "('a \<Rightarrow> py_error + 'b list) \<Rightarrow> 'a list \<Rightarrow> py_error + 'b list" where
  "collect f [] = Inr []"
| "collect f (x # xs) =
     (case f x of
        Inl e \<Rightarrow> Inl e
      | Inr ys \<Rightarrow> (case collect f xs of Inl e \<Rightarrow> Inl e | Inr zs \<Rightarrow> Inr (ys @ zs)))"

text \<open>
  A sequence of state-changing calls; an exception leaves the state as the last
  completed call made it.
\<close>

fun run_steps :: "('s \<Rightarrow> py_error + 's) list \<Rightarrow> 's \<Rightarrow> 's \<times> py_error option" where
  "run_steps [] s = (s, None)"
| "run_steps (f # fs) s = (case f s of Inl e \<Rightarrow> (s, Some e) | Inr s' \<Rightarrow> run_steps fs s')"

text \<open>The pairs \<open>(xs[i], xs[j])\<close> with \<open>i < j\<close>, in the order of the nested loops.\<close>

fun pairs :: "'a list \<Rightarrow> ('a \<times> 'a) list" where
  "pairs [] = []"
| "pairs (x # xs) = map (Pair x) xs @ pairs xs"

definition add_constraints :: "constr list \<Rightarrow> scheduler \<Rightarrow> scheduler" where
  \<comment> \<open>repeated \<^verbatim>\<open>self.model.Add(...)\<close>\<close>
  "add_constraints cs s = s\<lparr>model := (model s)\<lparr>constraints := constraints (model s) @ cs\<rparr>\<rparr>"

definition explain :: "message \<Rightarrow> scheduler \<Rightarrow> scheduler" where
  \<comment> \<open>\<^verbatim>\<open>self.constraint_explanations.append(msg)\<close>\<close>
  "explain msg s = s\<lparr>constraint_explanations := constraint_explanations s @ [msg]\<rparr>"

section \<open>Resolving a slot to a date-time, place by place\<close>

text \<open>\<^verbatim>\<open>_add_recovery_constraints\<close>, lines 320 to 334 (check against existing bookings).\<close>

definition recovery_slot_datetime ::
  "datetime \<Rightarrow> datetime \<Rightarrow> schedule_slot \<Rightarrow> py_error + datetime" where
  "recovery_slot_datetime start_date current_time slot =
     (let days_until_slot = (day_of_week slot - weekday start_date) mod 7 in
      if days_until_slot = 0 then
        (case replace_hour start_date (start_hour slot) of
           Inl e \<Rightarrow> Inl e
         | Inr slot_time_today \<Rightarrow>
             Inr (combine_min (date_of start_date
                    + (if slot_time_today \<le> current_time then 7 else days_until_slot))
                  + timedelta 0 (start_hour slot)))
      else Inr (combine_min (date_of start_date + days_until_slot)
                + timedelta 0 (start_hour slot)))"

text \<open>\<^verbatim>\<open>_add_recovery_constraints\<close>, lines 356 to 363 (check between two new slots).\<close>

definition pairwise_slot_datetime :: "datetime \<Rightarrow> schedule_slot \<Rightarrow> datetime" where
  "pairwise_slot_datetime start_date slot =
     start_date + timedelta (day_of_week slot) (start_hour slot)"

text \<open>\<^verbatim>\<open>_add_current_time_constraints\<close>, lines 394 to 407.\<close>

definition current_time_slot_datetime ::
  "datetime \<Rightarrow> datetime \<Rightarrow> schedule_slot \<Rightarrow> py_error + datetime" where
  "current_time_slot_datetime start_date current_time slot =
     (let days_until_slot = (day_of_week slot - weekday start_date) mod 7 in
      if days_until_slot = 0 then
        (case replace_hour start_date (start_hour slot) of
           Inl e \<Rightarrow> Inl e
         | Inr slot_time_today \<Rightarrow>
             Inr (combine_min (date_of start_date
                    + (if slot_time_today \<le> current_time then 7 else days_until_slot))
                  + timedelta 0 (start_hour slot)))
      else Inr (combine_min (date_of start_date + days_until_slot)
                + timedelta 0 (start_hour slot)))"

text \<open>\<^verbatim>\<open>_define_objective\<close>, lines 532 to 538: only the date is computed.\<close>

definition objective_slot_date ::
  "datetime \<Rightarrow> datetime \<Rightarrow> schedule_slot \<Rightarrow> py_error + date" where
  "objective_slot_date start_date current_time slot =
     (let days_until_slot = (day_of_week slot - weekday start_date) mod 7 in
      if days_until_slot = 0 then
        (case replace_hour start_date (start_hour slot) of
           Inl e \<Rightarrow> Inl e
         | Inr slot_time_today \<Rightarrow>
             Inr (date_of start_date
                  + (if slot_time_today \<le> current_time then 7 else days_until_slot)))
      else Inr (date_of start_date + days_until_slot))"

text \<open>\<^verbatim>\<open>_extract_suggestions\<close>, lines 602 to 607: the date of a suggestion.\<close>

definition suggestion_date :: "datetime \<Rightarrow> schedule_slot \<Rightarrow> date" where
  "suggestion_date base_date slot =
     (let days_until_slot = (day_of_week slot - weekday base_date) mod 7 in
      date_of base_date
      + (if days_until_slot = 0 \<and> hour_of base_date > start_hour slot then 7
         else days_until_slot))"

text \<open>
  The rule of the specification: the next occurrence of the slot's day of the week on
  or after the start date, a week later when that occurrence is on the start date
  itself and the slot's hour has passed.
\<close>

definition next_occurrence :: "datetime \<Rightarrow> datetime \<Rightarrow> schedule_slot \<Rightarrow> datetime" where
  "next_occurrence start_date current_time slot =
     (let days = (day_of_week slot - weekday start_date) mod 7;
          on_or_after = combine_min (date_of start_date + days) + timedelta 0 (start_hour slot)
      in if days = 0 \<and> on_or_after \<le> current_time then on_or_after + timedelta 7 0
         else on_or_after)"

text \<open>
  The date-time a suggestion stands for, as the booking step reads it back
  (\<^verbatim>\<open>book_selected_suggestions\<close>: the suggested date at the suggested hour).
\<close>

definition suggestion_datetime :: "suggestion \<Rightarrow> datetime" where
  "suggestion_datetime sg = combine_min (date_suggestion sg) + timedelta 0 (sg_hour sg)"


section \<open>The scheduler (class CPSATScheduler)\<close>

subsection \<open>Queries of the scheduler\<close>

definition get_client_recent_bookings :: "database \<Rightarrow> int \<Rightarrow> datetime \<Rightarrow> booking list" where
  "get_client_recent_bookings db client_id since_date =
     (let cutoff_date = since_date - timedelta 7 0 in
      filter (\<lambda>b. booking_client_id b = client_id
                  \<and> booking_date b \<ge> cutoff_date
                  \<and> booking_status b \<noteq> ''cancelled'') (bookings db))"

definition get_coach_workload_data ::
  "database \<Rightarrow> int \<Rightarrow> datetime \<Rightarrow> datetime \<Rightarrow> (int \<times> pyfloat) list" where
  "get_coach_workload_data db coach_id start_date end_date =
     (let rows = filter (\<lambda>b. booking_date b \<ge> start_date
                           \<and> booking_date b \<le> end_date
                           \<and> booking_status b \<noteq> ''cancelled'') (bookings db);
          workload_data =
            map (\<lambda>c. (c, float_of_int (int (length (filter (\<lambda>b. booking_coach_id b = c) rows)))))
                (remdups (map booking_coach_id rows))
      in if coach_id \<in> set (map fst workload_data) then workload_data
         else workload_data @ [(coach_id, (0, 1))])"

definition gather_scheduling_data ::
  "database \<Rightarrow> datetime \<Rightarrow> int \<Rightarrow> datetime option \<Rightarrow> int \<Rightarrow> py_error + scheduling_data" where
  "gather_scheduling_data db now client_id preferred_date days_flexibility =
     (let start_date = (case preferred_date of None \<Rightarrow> now | Some d \<Rightarrow> d);
          end_date = start_date + timedelta days_flexibility 0
      in case get_client_plan db client_id of
           None \<Rightarrow> Inl (ValueError_no_plan client_id)
         | Some plan \<Rightarrow>
             Inr \<lparr> sd_client_id = client_id,
                   sd_client_plan = plan,
                   sd_client_preference = get_client_preference db client_id,
                   available_slots = get_available_slots_for_client db client_id start_date,
                   existing_bookings = get_client_recent_bookings db client_id start_date,
                   coach_workload =
                     get_coach_workload_data db (assigned_coach_id plan) start_date end_date,
                   time_window = (start_date, end_date),
                   planning_horizon = days_flexibility \<rparr>)"

subsection \<open>Building the model\<close>

definition create_model :: "scheduling_data \<Rightarrow> int \<Rightarrow> scheduler \<Rightarrow> scheduler" where
  "create_model sd num_sessions s =
     s\<lparr>model := \<lparr> variables = map slot_id (available_slots sd),
                   constraints = [ExactCount (map slot_id (available_slots sd)) num_sessions],
                   objective = [] \<rparr>\<rparr>"

definition add_capacity_constraints :: "scheduling_data \<Rightarrow> scheduler \<Rightarrow> py_error + scheduler" where
  "add_capacity_constraints sd s = Inr (explain Capacity_msg s)"

definition forbidden_window :: "booking \<Rightarrow> datetime \<times> datetime" where
  "forbidden_window b =
     (let booking_start = booking_date b;
          booking_end = booking_date b + timedelta 0 1
      in (booking_start - timedelta 0 min_recovery_hours,
          booking_end + timedelta 0 min_recovery_hours))"

definition booking_recovery_constraints ::
  "scheduling_data \<Rightarrow> datetime \<Rightarrow> booking \<Rightarrow> py_error + constr list" where
  "booking_recovery_constraints sd current_time b =
     (let days_old = timedelta_days (current_time - booking_date b) in
      if days_old > 7 then Inr []
      else collect (\<lambda>slot.
             case recovery_slot_datetime (fst (time_window sd)) current_time slot of
               Inl e \<Rightarrow> Inl e
             | Inr slot_datetime \<Rightarrow>
                 Inr (if fst (forbidden_window b) \<le> slot_datetime
                         \<and> slot_datetime \<le> snd (forbidden_window b)
                      then [ForceZero (slot_id slot)] else []))
           (available_slots sd))"

definition pairwise_recovery_constraints :: "scheduling_data \<Rightarrow> constr list" where
  "pairwise_recovery_constraints sd =
     concat (map (\<lambda>(slot1, slot2).
                    if \<bar>pairwise_slot_datetime (fst (time_window sd)) slot2
                        - pairwise_slot_datetime (fst (time_window sd)) slot1\<bar>
                       < timedelta 0 min_recovery_hours
                    then [AtMostOne (slot_id slot1) (slot_id slot2)] else [])
                 (pairs (available_slots sd)))"

definition add_recovery_constraints ::
  "scheduling_data \<Rightarrow> int \<Rightarrow> datetime \<Rightarrow> scheduler \<Rightarrow> py_error + scheduler" where
  "add_recovery_constraints sd client_id current_time s =
     (case collect (booking_recovery_constraints sd current_time) (existing_bookings sd) of
        Inl e \<Rightarrow> Inl e
      | Inr cs \<Rightarrow>
          Inr (explain (Recovery_msg min_recovery_hours)
                (add_constraints (cs @ pairwise_recovery_constraints sd) s)))"

definition add_coach_availability_constraints ::
  "scheduling_data \<Rightarrow> scheduler \<Rightarrow> py_error + scheduler" where
  "add_coach_availability_constraints sd s = Inr (explain Coach_availability_msg s)"

definition add_current_time_constraints ::
  "scheduling_data \<Rightarrow> datetime \<Rightarrow> scheduler \<Rightarrow> py_error + scheduler" where
  "add_current_time_constraints sd current_time s =
     (case collect (\<lambda>slot.
             case current_time_slot_datetime (fst (time_window sd)) current_time slot of
               Inl e \<Rightarrow> Inl e
             | Inr slot_datetime \<Rightarrow>
                 Inr (if slot_datetime \<le> current_time then [ForceZero (slot_id slot)] else []))
           (available_slots sd) of
        Inl e \<Rightarrow> Inl e
      | Inr cs \<Rightarrow> Inr (explain (Current_time_msg (length cs)) (add_constraints cs s)))"

text \<open>
  \<^verbatim>\<open>getattr(client_plan, 'sessions_per_week', 3)\<close> gives the default only for an
  object without the attribute. A plan has it, so its value comes back, \<^verbatim>\<open>None\<close>
  included, and the first subtraction or comparison with a number of bookings then
  raises TypeError.
\<close>

definition weekly_limit_of :: "client_plan \<Rightarrow> int option" where
  "weekly_limit_of plan = sessions_per_week plan"

definition count_current_week_bookings :: "scheduling_data \<Rightarrow> int" where
  "count_current_week_bookings sd =
     (let start_date = fst (time_window sd);
          week_start = start_date - timedelta (weekday start_date) 0;
          week_end = week_start + timedelta 7 0
      in int (length (filter (\<lambda>b. week_start \<le> booking_date b \<and> booking_date b < week_end)
                             (existing_bookings sd))))"

definition count_next_week_bookings :: "int \<Rightarrow> scheduling_data \<Rightarrow> int" where
  "count_next_week_bookings client_id sd =
     (let start_date = fst (time_window sd);
          current_week_start = start_date - timedelta (weekday start_date) 0;
          next_week_start = current_week_start + timedelta 7 0;
          next_week_end = next_week_start + timedelta 7 0
      in int (length (filter (\<lambda>b. next_week_start \<le> booking_date b \<and> booking_date b < next_week_end)
                             (existing_bookings sd))))"

definition add_weekly_quota_constraints ::
  "scheduling_data \<Rightarrow> int \<Rightarrow> scheduler \<Rightarrow> py_error + scheduler" where
  "add_weekly_quota_constraints sd client_id s =
     (let start_date = fst (time_window sd);
          week_start = start_date - timedelta (weekday start_date) 0;
          week_end = week_start + timedelta 7 0;
          current_week_bookings =
            int (length (filter (\<lambda>b. week_start \<le> booking_date b \<and> booking_date b < week_end)
                                (existing_bookings sd)))
      in case weekly_limit_of (sd_client_plan sd) of
           None \<Rightarrow> Inl TypeError_none
         | Some weekly_limit \<Rightarrow>
             (let remaining_quota = weekly_limit - current_week_bookings
              in if remaining_quota \<le> 0
                 then Inr (explain (Quota_used_msg current_week_bookings weekly_limit)
                             (add_constraints (map (\<lambda>slot. ForceZero (slot_id slot))
                                                 (available_slots sd)) s))
                 else Inr (explain (Quota_remaining_msg remaining_quota current_week_bookings
                                      weekly_limit) s)))"

definition add_excluded_slots_constraints ::
  "scheduling_data \<Rightarrow> int list \<Rightarrow> scheduler \<Rightarrow> py_error + scheduler" where
  "add_excluded_slots_constraints sd excluded_slot_ids s =
     (if excluded_slot_ids = [] then Inr s
      else let cs = map (\<lambda>slot. ForceZero (slot_id slot))
                        (filter (\<lambda>slot. slot_id slot \<in> set excluded_slot_ids) (available_slots sd))
           in if length cs > 0 then Inr (explain (Resuggestion_msg (length cs)) (add_constraints cs s))
              else Inr (add_constraints cs s))"

definition add_preference_constraints ::
  "scheduling_data \<Rightarrow> int \<Rightarrow> scheduler \<Rightarrow> py_error + scheduler" where
  "add_preference_constraints sd client_id s =
     (case sd_client_preference sd of
        None \<Rightarrow> Inr s
      | Some pref \<Rightarrow> Inr (explain Preference_msg s))"

subsection \<open>The objective\<close>

datatype preference_class = Perfect | Close | Outside

text \<open>
  The test \<^verbatim>\<open>pref_start <= hour <= pref_end\<close> followed by
  \<^verbatim>\<open>hour == pref_start - 1 or hour == pref_end + 1\<close>, as Python evaluates it when
  \<^verbatim>\<open>pref_end\<close> may be \<^verbatim>\<open>None\<close>: comparing or adding with \<^verbatim>\<open>None\<close> raises TypeError.
\<close>

definition classify_hour :: "int \<Rightarrow> int option \<Rightarrow> int \<Rightarrow> py_error + preference_class" where
  "classify_hour pref_start pref_end hour =
     (if pref_start \<le> hour then
        (case pref_end of
           None \<Rightarrow> Inl TypeError_none
         | Some e \<Rightarrow>
             Inr (if hour \<le> e then Perfect
                  else if hour = pref_start - 1 \<or> hour = e + 1 then Close else Outside))
      else if hour = pref_start - 1 then Inr Close
      else (case pref_end of
              None \<Rightarrow> Inl TypeError_none
            | Some e \<Rightarrow> Inr (if hour = e + 1 then Close else Outside)))"

definition preference_match_weight :: int where
  "preference_match_weight = 10"

definition coach_load_balance_weight :: pyfloat where
  "coach_load_balance_weight = (5, 1)"

definition preference_terms :: "scheduling_data \<Rightarrow> py_error + (int \<times> int) list" where
  "preference_terms sd =
     (case sd_client_preference sd of
        None \<Rightarrow> Inr []
      | Some pref \<Rightarrow>
          (case preferred_start_hour pref of
             None \<Rightarrow> Inr []
           | Some pref_start \<Rightarrow>
               collect (\<lambda>slot.
                  case classify_hour pref_start (preferred_end_hour pref) (start_hour slot) of
                    Inl e \<Rightarrow> Inl e
                  | Inr Perfect \<Rightarrow> Inr [(slot_id slot, preference_match_weight * 100)]
                  | Inr Close \<Rightarrow> Inr [(slot_id slot, preference_match_weight * 50)]
                  | Inr Outside \<Rightarrow> Inr [])
                (available_slots sd)))"

text \<open>
  The load-balancing term, in the floating-point arithmetic of the source:
  \<^verbatim>\<open>sum\<close> adds the workloads to 0 from left to right, the average is that sum
  divided by the number of coaches, and the coefficient is
  \<^verbatim>\<open>int(5.0 * workload_diff * 10)\<close>, each operation rounded. (Sums below \<^verbatim>\<open>2**53\<close>
  are exact, so the compensated summation of recent Python versions gives the same.)
\<close>

definition load_balance_terms :: "scheduling_data \<Rightarrow> (int \<times> int) list" where
  "load_balance_terms sd =
     (let avg_workload =
            (if coach_workload sd \<noteq> []
             then fdiv (foldl fadd (0, 1) (map snd (coach_workload sd)))
                       (float_of_int (int (length (coach_workload sd))))
             else (0, 1))
      in concat (map (\<lambda>slot.
           case map_of (coach_workload sd) (slot_coach_id slot) of
             None \<Rightarrow> []
           | Some w \<Rightarrow>
               (let workload_diff = fsub avg_workload w
                in if fst workload_diff > 0
                   then [(slot_id slot,
                          int_of_float (fmul (fmul coach_load_balance_weight workload_diff)
                                             (float_of_int 10)))]
                   else []))
         (available_slots sd)))"

definition date_terms :: "scheduling_data \<Rightarrow> datetime \<Rightarrow> py_error + (int \<times> int) list" where
  "date_terms sd current_time =
     (let start_date = fst (time_window sd) in
      collect (\<lambda>slot.
         case objective_slot_date start_date current_time slot of
           Inl e \<Rightarrow> Inl e
         | Inr slot_date \<Rightarrow>
             (let days_from_start = slot_date - date_of start_date;
                  date_score = max 0 (7 - days_from_start) * 20
              in Inr [(slot_id slot, date_score)]))
       (available_slots sd))"

definition define_objective ::
  "scheduling_data \<Rightarrow> int \<Rightarrow> datetime \<Rightarrow> scheduler \<Rightarrow> py_error + scheduler" where
  "define_objective sd client_id current_time s =
     (case preference_terms sd of
        Inl e \<Rightarrow> Inl e
      | Inr pts \<Rightarrow>
          (case date_terms sd current_time of
             Inl e \<Rightarrow> Inl e
           | Inr dts \<Rightarrow>
               (let objective_terms = pts @ load_balance_terms sd @ dts in
                Inr (s\<lparr>model := (model s)\<lparr>objective :=
                         (if objective_terms \<noteq> [] then objective_terms
                          else map (\<lambda>slot. (slot_id slot, 1)) (available_slots sd))\<rparr>\<rparr>))))"

subsection \<open>Solving and reading the solution\<close>

definition status_map :: "cp_status \<Rightarrow> string" where
  "status_map st =
     (case st of
        OPTIMAL \<Rightarrow> ''OPTIMAL''
      | FEASIBLE \<Rightarrow> ''FEASIBLE''
      | INFEASIBLE \<Rightarrow> ''NO_SOLUTION''
      | UNKNOWN \<Rightarrow> ''TIMEOUT''
      | MODEL_INVALID \<Rightarrow> ''INVALID'')"

definition solve_model :: "cp_solver \<Rightarrow> cp_model \<Rightarrow> solver_result" where
  "solve_model solver m =
     (let status = response_status (solver m);
          confidence = (if status = OPTIMAL then 1.0 else if status = FEASIBLE then 0.8 else 0.0)
      in \<lparr> sr_status = status_map status,
            sr_confidence = confidence,
            sr_objective_value =
              (if status = OPTIMAL \<or> status = FEASIBLE then response_objective (solver m) else 0) \<rparr>)"

definition extract_suggestions ::
  "database \<Rightarrow> scheduling_data \<Rightarrow> solver_result \<Rightarrow> cp_response \<Rightarrow> py_error + suggestion list" where
  "extract_suggestions db sd solver_result response =
     (if sr_status solver_result = ''NO_SOLUTION'' \<or> sr_status solver_result = ''INVALID''
      then Inr []
      else
        (case collect (\<lambda>slot.
                case response_value response (slot_id slot) of
                  Inl e \<Rightarrow> Inl e
                | Inr v \<Rightarrow>
                    Inr (if v = 1 then
                      [\<lparr> sg_slot_id = slot_id slot,
                          sg_coach_id = slot_coach_id slot,
                          sg_coach_name =
                            (case coach_full_name db (slot_coach_id slot) of
                               Some name \<Rightarrow> name | None \<Rightarrow> ''Unknown Coach''),
                          sg_day_of_week = day_of_week slot,
                          sg_hour = start_hour slot,
                          date_suggestion = suggestion_date (fst (time_window sd)) slot,
                          sg_confidence_score = sr_confidence solver_result * 100,
                          capacity_available = capacity slot,
                          optimization_score =
                            (if sr_objective_value solver_result \<noteq> 0
                             then response_objective response else 0) \<rparr>]
                      else []))
              (available_slots sd) of
           Inl e \<Rightarrow> Inl e
         | Inr suggestions \<Rightarrow>
             Inr (take max_suggestions
                    (sort_key (\<lambda>x. (sg_hour x, sg_day_of_week x)) suggestions))))"

text \<open>Removing duplicates while keeping the first occurrence of each element.\<close>

fun unique_in_order :: "'a list \<Rightarrow> 'a list \<Rightarrow> 'a list" where
  "unique_in_order seen [] = []"
| "unique_in_order seen (x # xs) =
     (if x \<in> set seen then unique_in_order seen xs else x # unique_in_order (seen @ [x]) xs)"

definition generate_reasons ::
  "suggestion list \<Rightarrow> scheduling_data \<Rightarrow> int \<Rightarrow> py_error + suggestion_reason list" where
  "generate_reasons suggestions sd client_id =
     (if suggestions = [] then Inr [ONLY_OPTION]
      else
        (case collect (\<lambda>sg.
                case (case sd_client_preference sd of
                        None \<Rightarrow> Inr []
                      | Some pref \<Rightarrow>
                          (case preferred_start_hour pref of
                             None \<Rightarrow> Inr []
                           | Some pref_start \<Rightarrow>
                               (case classify_hour pref_start (preferred_end_hour pref) (sg_hour sg) of
                                  Inl e \<Rightarrow> Inl e
                                | Inr Perfect \<Rightarrow> Inr [PERFECT_PREFERENCE_MATCH]
                                | Inr Close \<Rightarrow> Inr [GOOD_PREFERENCE_MATCH]
                                | Inr Outside \<Rightarrow> Inr []))) of
                  Inl e \<Rightarrow> Inl e
                | Inr rs \<Rightarrow> Inr (rs @ [COACH_AVAILABILITY, CAPACITY_AVAILABLE]))
              suggestions of
           Inl e \<Rightarrow> Inl e
         | Inr rs \<Rightarrow> Inr (unique_in_order [] rs)))"


subsection \<open>Week status and the results without suggestions\<close>

definition generate_week_status_message ::
  "int \<Rightarrow> scheduling_data \<Rightarrow> py_error + week_status" where
  "generate_week_status_message client_id sd =
     (case weekly_limit_of (sd_client_plan sd) of
        None \<Rightarrow> Inl TypeError_none
      | Some weekly_limit \<Rightarrow>
          (let current_week_bookings = count_current_week_bookings sd;
               current_week_remaining = weekly_limit - current_week_bookings;
               next_week_bookings = count_next_week_bookings client_id sd;
               next_week_remaining = weekly_limit - next_week_bookings
           in Inr (Week_status
                (if current_week_remaining > 0 then This_week_left current_week_remaining
                 else This_week_complete weekly_limit)
                (if next_week_bookings = 0 then Next_week_available weekly_limit
                 else if next_week_remaining > 0
                      then Next_week_partial next_week_bookings weekly_limit next_week_remaining
                      else Next_week_full weekly_limit))))"

text \<open>
  The source builds a dictionary with the three keys the week status reads
  (\<^verbatim>\<open>client_plan\<close>, \<^verbatim>\<open>existing_bookings\<close>, \<^verbatim>\<open>time_window\<close>); the other fields of
  the record are absent there and never read.
\<close>

definition create_quota_exceeded_result ::
  "database \<Rightarrow> datetime \<Rightarrow> int \<Rightarrow> int \<Rightarrow> int \<Rightarrow> py_error + scheduling_result" where
  "create_quota_exceeded_result db now client_id weekly_limit current_bookings =
     (case (case get_client_plan db client_id of
              None \<Rightarrow> Inr (Limit_reached_msg current_bookings weekly_limit)
            | Some plan \<Rightarrow>
                (let today = now;
                     start_date = today - timedelta 14 0;
                     temp_scheduling_data =
                       \<lparr> sd_client_id = client_id,
                         sd_client_plan = plan,
                         sd_client_preference = None,
                         available_slots = [],
                         existing_bookings = get_client_recent_bookings db client_id start_date,
                         coach_workload = [],
                         time_window = (combine_min (date_of today), combine_min (date_of today)),
                         planning_horizon = 0 \<rparr>
                 in case generate_week_status_message client_id temp_scheduling_data of
                      Inl e \<Rightarrow> Inl e
                    | Inr week_status_msg \<Rightarrow> Inr (Cannot_book_msg week_status_msg))) of
        Inl e \<Rightarrow> Inl e
      | Inr error_msg \<Rightarrow>
          Inr \<lparr> result_client_id = client_id,
                suggested_slots = [],
                total_suggestions = 0,
                solver_status = WEEKLY_QUOTA_EXCEEDED,
                confidence_score = 0.0,
                constraints_satisfied = [error_msg],
                reasons = [ONLY_OPTION] \<rparr>)"

definition create_no_availability_result :: "int \<Rightarrow> scheduling_result" where
  "create_no_availability_result client_id =
     \<lparr> result_client_id = client_id,
       suggested_slots = [],
       total_suggestions = 0,
       solver_status = NO_AVAILABILITY,
       confidence_score = 0.0,
       constraints_satisfied = [No_slots_msg],
       reasons = [ONLY_OPTION] \<rparr>"

definition create_error_result :: "int \<Rightarrow> py_error \<Rightarrow> scheduling_result" where
  "create_error_result client_id error_msg =
     \<lparr> result_client_id = client_id,
       suggested_slots = [],
       total_suggestions = 0,
       solver_status = ERROR error_msg,
       confidence_score = 0.0,
       constraints_satisfied = [Error_msg error_msg],
       reasons = [ONLY_OPTION] \<rparr>"

subsection \<open>Degradation: partial solutions and the failure analysis\<close>

text \<open>
  \<^verbatim>\<open>lo <= hour <= hi\<close> where \<^verbatim>\<open>hi\<close> is \<^verbatim>\<open>pref_end + delta\<close> and \<^verbatim>\<open>pref_end\<close> may be
  \<^verbatim>\<open>None\<close>: the right-hand comparison is only evaluated when the left-hand one holds.
\<close>

definition chained_between :: "int \<Rightarrow> int \<Rightarrow> int option \<Rightarrow> int \<Rightarrow> py_error + bool" where
  "chained_between lo hour pref_end delta =
     (if lo \<le> hour then
        (case pref_end of None \<Rightarrow> Inl TypeError_none | Some e \<Rightarrow> Inr (hour \<le> e + delta))
      else Inr False)"

definition analyze_constraint_failures ::
  "scheduling_data \<Rightarrow> int \<Rightarrow> int \<Rightarrow> py_error + shortfall_analysis" where
  "analyze_constraint_failures sd requested found =
     (let existing_bookings_count = length (existing_bookings sd);
          recovery = (if existing_bookings_count > 0
                      then [Recovery_shortfall existing_bookings_count] else []);
          finish = (\<lambda>rs. if rs \<noteq> [] then Reasons rs else Multiple_constraints)
      in case sd_client_preference sd of
           None \<Rightarrow> Inr (finish recovery)
         | Some pref \<Rightarrow>
             (case preferred_start_hour pref of
                None \<Rightarrow> Inr (finish recovery)
              | Some pref_start \<Rightarrow>
                  (case collect (\<lambda>slot.
                          case (if is_flexible pref
                                then chained_between (pref_start - 1) (start_hour slot)
                                       (preferred_end_hour pref) 1
                                else chained_between pref_start (start_hour slot)
                                       (preferred_end_hour pref) 0) of
                            Inl e \<Rightarrow> Inl e
                          | Inr hit \<Rightarrow> Inr (if hit then [slot] else []))
                        (available_slots sd) of
                     Inl e \<Rightarrow> Inl e
                   | Inr matching \<Rightarrow>
                       Inr (finish (recovery @
                         (if int (length matching) < requested
                          then [Preference_shortfall (is_flexible pref) pref_start
                                  (preferred_end_hour pref) (length matching)]
                          else []))))))"

text \<open>\<^verbatim>\<open>min(existing_bookings, key=lambda b: b.date)\<close>: the first booking of least date.\<close>

fun earliest_booking :: "booking \<Rightarrow> booking list \<Rightarrow> booking" where
  "earliest_booking b [] = b"
| "earliest_booking b (x # xs) =
     earliest_booking (if booking_date x < booking_date b then x else b) xs"

definition preference_items ::
  "scheduling_data \<Rightarrow> int \<Rightarrow> py_error + failure_item list" where
  "preference_items sd num_sessions =
     (case sd_client_preference sd of
        None \<Rightarrow> Inr []
      | Some pref \<Rightarrow>
          (case preferred_start_hour pref of
             None \<Rightarrow> Inr []
           | Some pref_start \<Rightarrow>
               (case map start_hour (available_slots sd) of
                  [] \<Rightarrow> Inr []
                | h # hs \<Rightarrow>
                    (let coach_min_hour = fold min hs h;
                         coach_max_hour = fold max hs h
                     in if is_flexible pref then Inr []
                        else (case preferred_end_hour pref of
                                None \<Rightarrow> Inl TypeError_none
                              | Some pref_end \<Rightarrow>
                                  if pref_end < coach_min_hour \<or> pref_start > coach_max_hour
                                  then Inr [Preference_mismatch_item pref_start (Some pref_end)
                                              coach_min_hour coach_max_hour]
                                  else (let overlap_start = max pref_start coach_min_hour;
                                            overlap_end = min pref_end coach_max_hour
                                        in if overlap_end - overlap_start < num_sessions
                                           then Inr [Insufficient_overlap_item pref_start (Some pref_end)
                                                       coach_min_hour coach_max_hour]
                                           else Inr []))))))"

definition create_detailed_failure_analysis ::
  "int \<Rightarrow> scheduling_data \<Rightarrow> int \<Rightarrow> message list \<Rightarrow> py_error + scheduling_result" where
  "create_detailed_failure_analysis client_id sd num_sessions explanations =
     (let available_slots_count = length (available_slots sd);
          existing_bookings_count = length (existing_bookings sd);
          no_slots = (if available_slots_count = 0 then [No_slots_item] else []);
          current_week_bookings = count_current_week_bookings sd
      in case weekly_limit_of (sd_client_plan sd) of
           None \<Rightarrow> Inl TypeError_none
         | Some weekly_limit \<Rightarrow>
             (case (if current_week_bookings \<ge> weekly_limit
                    then (case generate_week_status_message client_id sd of
                            Inl e \<Rightarrow> Inl e
                          | Inr week_status_msg \<Rightarrow> Inr [Quota_reached_item week_status_msg])
                    else if current_week_bookings + num_sessions > weekly_limit
                    then (case generate_week_status_message client_id sd of
                            Inl e \<Rightarrow> Inl e
                          | Inr week_status_msg \<Rightarrow>
                              Inr [Quota_would_be_exceeded_item week_status_msg])
                    else Inr (case existing_bookings sd of
                                [] \<Rightarrow> []
                              | b # bs \<Rightarrow>
                                  [Recovery_item existing_bookings_count
                                     (booking_date (earliest_booking b bs) + timedelta 0 25)])) of
                Inl e \<Rightarrow> Inl e
              | Inr quota_or_recovery \<Rightarrow>
                  (case preference_items sd num_sessions of
                     Inl e \<Rightarrow> Inl e
                   | Inr pref_items \<Rightarrow>
                       (let found = no_slots @ quota_or_recovery @ pref_items;
                            error_messages =
                              (if found = [] then [Generic_item num_sessions] else found)
                        in Inr \<lparr> result_client_id = client_id,
                                 suggested_slots = [],
                                 total_suggestions = 0,
                                 solver_status = NO_SOLUTION_DETAILED,
                                 confidence_score = 0.0,
                                 constraints_satisfied =
                                   Failure_analysis_msg error_messages # explanations,
                                 reasons = [ONLY_OPTION] \<rparr>))))"

definition partial_steps ::
  "scheduling_data \<Rightarrow> int \<Rightarrow> datetime \<Rightarrow> (scheduler \<Rightarrow> py_error + scheduler) list" where
  "partial_steps sd client_id now =
     [add_capacity_constraints sd,
      add_recovery_constraints sd client_id now,
      add_coach_availability_constraints sd,
      add_current_time_constraints sd now,
      add_preference_constraints sd client_id,
      define_objective sd client_id now]"

text \<open>
  One pass of the loop of \<^verbatim>\<open>_try_partial_solutions\<close>: the explanations the scheduler
  holds afterwards, and the partial result if this pass returns one. An exception in
  the pass is caught and the loop goes on.
\<close>

definition partial_attempt ::
  "cp_solver \<Rightarrow> database \<Rightarrow> scheduling_data \<Rightarrow> int \<Rightarrow> datetime \<Rightarrow> int \<Rightarrow> scheduler \<Rightarrow> int
     \<Rightarrow> scheduler \<times> scheduling_result option" where
  "partial_attempt solver db sd client_id now original_sessions s0 num_sessions =
     (case run_steps (partial_steps sd client_id now)
             (create_model sd num_sessions (s0\<lparr>constraint_explanations := []\<rparr>)) of
        (s, Some e) \<Rightarrow> (s, None)
      | (s, None) \<Rightarrow>
          (let solver_result = solve_model solver (model s) in
           if sr_status solver_result = ''OPTIMAL'' \<or> sr_status solver_result = ''FEASIBLE'' then
             (case extract_suggestions db sd solver_result (solver (model s)) of
                Inl e \<Rightarrow> (s, None)
              | Inr suggestions \<Rightarrow>
                  (case analyze_constraint_failures sd original_sessions num_sessions of
                     Inl e \<Rightarrow> (s, None)
                   | Inr analysis \<Rightarrow>
                       (case generate_reasons suggestions sd client_id of
                          Inl e \<Rightarrow> (s, None)
                        | Inr rs \<Rightarrow>
                            (s, Some \<lparr> result_client_id = client_id,
                                       suggested_slots = suggestions,
                                       total_suggestions = length suggestions,
                                       solver_status = PARTIAL_SOLUTION num_sessions,
                                       confidence_score =
                                         sr_confidence solver_result
                                         * (real_of_int num_sessions / real_of_int original_sessions),
                                       constraints_satisfied =
                                         Partial_warning_msg num_sessions original_sessions analysis
                                         # constraint_explanations s,
                                       reasons = rs \<rparr>))))
           else (s, None)))"

fun partial_loop ::
  "cp_solver \<Rightarrow> database \<Rightarrow> scheduling_data \<Rightarrow> int \<Rightarrow> datetime \<Rightarrow> int \<Rightarrow> scheduler \<Rightarrow> int list
     \<Rightarrow> scheduler \<times> scheduling_result option" where
  "partial_loop solver db sd client_id now original_sessions s [] = (s, None)"
| "partial_loop solver db sd client_id now original_sessions s (k # ks) =
     (case partial_attempt solver db sd client_id now original_sessions s k of
        (s', Some r) \<Rightarrow> (s', Some r)
      | (s', None) \<Rightarrow> partial_loop solver db sd client_id now original_sessions s' ks)"

definition try_partial_solutions ::
  "cp_solver \<Rightarrow> database \<Rightarrow> int \<Rightarrow> datetime \<Rightarrow> scheduling_data \<Rightarrow> int \<Rightarrow> scheduler
     \<Rightarrow> py_error + scheduling_result" where
  "try_partial_solutions solver db client_id now sd original_sessions s =
     \<comment> \<open>\<^verbatim>\<open>range(original_sessions - 1, 0, -1)\<close>\<close>
     (case partial_loop solver db sd client_id now original_sessions s
             (rev [1 .. original_sessions - 1]) of
        (s', Some r) \<Rightarrow> Inr r
      | (s', None) \<Rightarrow>
          create_detailed_failure_analysis client_id sd original_sessions
            (constraint_explanations s'))"

subsection \<open>The entry point\<close>

definition new_scheduler :: scheduler where
  "new_scheduler =
     \<lparr> model = \<lparr> variables = [], constraints = [], objective = [] \<rparr>,
       constraint_explanations = [] \<rparr>"

definition main_steps ::
  "scheduling_data \<Rightarrow> int \<Rightarrow> datetime \<Rightarrow> int list \<Rightarrow> (scheduler \<Rightarrow> py_error + scheduler) list" where
  "main_steps sd client_id now excluded_slot_ids =
     [add_capacity_constraints sd,
      add_recovery_constraints sd client_id now,
      add_coach_availability_constraints sd,
      add_current_time_constraints sd now,
      add_weekly_quota_constraints sd client_id,
      add_excluded_slots_constraints sd excluded_slot_ids,
      add_preference_constraints sd client_id,
      define_objective sd client_id now]"

definition solve_with_data ::
  "cp_solver \<Rightarrow> database \<Rightarrow> datetime \<Rightarrow> int \<Rightarrow> scheduling_data \<Rightarrow> int \<Rightarrow> int list
     \<Rightarrow> py_error + scheduling_result" where
  \<comment> \<open>steps 2 to 6 of \<^verbatim>\<open>suggest_optimal_bookings\<close>, after the quota check\<close>
  "solve_with_data solver db now client_id sd num_sessions excluded_slot_ids =
     (case generate_week_status_message client_id sd of
        Inl e \<Rightarrow> Inl e
      | Inr week_status_msg \<Rightarrow>
          (let s0 = new_scheduler\<lparr>constraint_explanations := [Week_status_msg week_status_msg]\<rparr>
           in case run_steps (main_steps sd client_id now excluded_slot_ids)
                     (create_model sd num_sessions s0) of
                (s, Some e) \<Rightarrow> Inl e
              | (s, None) \<Rightarrow>
                  (let solver_result = solve_model solver (model s) in
                   if sr_status solver_result = ''NO_SOLUTION''
                   then try_partial_solutions solver db client_id now sd num_sessions s
                   else
                     (case extract_suggestions db sd solver_result (solver (model s)) of
                        Inl e \<Rightarrow> Inl e
                      | Inr suggestions \<Rightarrow>
                          (case generate_reasons suggestions sd client_id of
                             Inl e \<Rightarrow> Inl e
                           | Inr rs \<Rightarrow>
                               Inr \<lparr> result_client_id = client_id,
                                     suggested_slots = suggestions,
                                     total_suggestions = length suggestions,
                                     solver_status = Solver_status (sr_status solver_result),
                                     confidence_score = sr_confidence solver_result,
                                     constraints_satisfied = constraint_explanations s,
                                     reasons = rs \<rparr>)))))"

definition suggest_body ::
  "cp_solver \<Rightarrow> database \<Rightarrow> datetime \<Rightarrow> int \<Rightarrow> int \<Rightarrow> datetime option \<Rightarrow> int \<Rightarrow> int list
     \<Rightarrow> py_error + scheduling_result" where
  \<comment> \<open>the \<^verbatim>\<open>try\<close> block of \<^verbatim>\<open>suggest_optimal_bookings\<close>\<close>
  "suggest_body solver db now client_id num_sessions preferred_date days_flexibility
       excluded_slot_ids =
     (case gather_scheduling_data db now client_id preferred_date days_flexibility of
        Inl e \<Rightarrow> Inl e
      | Inr sd \<Rightarrow>
          if available_slots sd = [] then Inr (create_no_availability_result client_id)
          else
            (let current_week_bookings = count_current_week_bookings sd
             in case weekly_limit_of (sd_client_plan sd) of
                  None \<Rightarrow> Inl TypeError_none
                | Some weekly_limit \<Rightarrow>
                    (let remaining_quota = weekly_limit - current_week_bookings
                     in if remaining_quota \<le> 0
                        then create_quota_exceeded_result db now client_id weekly_limit
                               current_week_bookings
                        else solve_with_data solver db now client_id sd
                               (if num_sessions > remaining_quota then remaining_quota
                                else num_sessions)
                               excluded_slot_ids)))"

definition suggest_optimal_bookings ::
  "cp_solver \<Rightarrow> database \<Rightarrow> datetime \<Rightarrow> int \<Rightarrow> int \<Rightarrow> datetime option \<Rightarrow> int \<Rightarrow> int list
     \<Rightarrow> scheduling_result" where
  "suggest_optimal_bookings solver db now client_id num_sessions preferred_date
       days_flexibility excluded_slot_ids =
     (case suggest_body solver db now client_id num_sessions preferred_date days_flexibility
             excluded_slot_ids of
        Inl e \<Rightarrow> create_error_result client_id e
      | Inr r \<Rightarrow> r)"


subsection \<open>Notions for stating what the scheduler guarantees\<close>

text \<open>A suggestion and the slot it was extracted from.\<close>

definition slot_of :: "scheduling_data \<Rightarrow> suggestion \<Rightarrow> schedule_slot \<Rightarrow> bool" where
  "slot_of sd sg slot =
     (slot \<in> set (available_slots sd)
      \<and> sg_slot_id sg = slot_id slot
      \<and> sg_day_of_week sg = day_of_week slot
      \<and> sg_hour sg = start_hour slot
      \<and> date_suggestion sg = suggestion_date (fst (time_window sd)) slot)"

text \<open>
  Inputs on which no step raises: slot hours within 0 to 23, a preference that has an
  end hour whenever it has a start hour, and a plan whose weekly limit is set.
\<close>

definition hours_valid :: "scheduling_data \<Rightarrow> bool" where
  "hours_valid sd =
     list_all (\<lambda>slot. 0 \<le> start_hour slot \<and> start_hour slot \<le> 23) (available_slots sd)"

definition preference_complete :: "scheduling_data \<Rightarrow> bool" where
  "preference_complete sd =
     (case sd_client_preference sd of
        None \<Rightarrow> True
      | Some pref \<Rightarrow>
          (case preferred_start_hour pref of
             None \<Rightarrow> True
           | Some pref_start \<Rightarrow> preferred_end_hour pref \<noteq> None))"

definition weekly_limit_set :: "scheduling_data \<Rightarrow> bool" where
  "weekly_limit_set sd = (sessions_per_week (sd_client_plan sd) \<noteq> None)"

text \<open>
  The weekly quota in the words of the specification: the bookings of the client,
  cancelled ones apart, in the calendar week of the start date, Monday 00:00 to the
  next Monday 00:00.
\<close>

definition calendar_week_start :: "datetime \<Rightarrow> datetime" where
  "calendar_week_start start_date = combine_min (date_of start_date - weekday start_date)"

definition calendar_week_bookings :: "database \<Rightarrow> int \<Rightarrow> datetime \<Rightarrow> int" where
  "calendar_week_bookings db client_id start_date =
     int (length (filter (\<lambda>b. booking_client_id b = client_id
                              \<and> booking_status b \<noteq> ''cancelled''
                              \<and> calendar_week_start start_date \<le> booking_date b
                              \<and> booking_date b < calendar_week_start start_date + timedelta 7 0)
                    (bookings db)))"

text \<open>
  The bookings of the client that lie in the calendar week and not in the seven days
  \<^verbatim>\<open>_count_current_week_bookings\<close> counts, or the other way round: those between 00:00
  of a Monday and the start date's time of day on that Monday.
\<close>

definition week_offset_bookings :: "database \<Rightarrow> int \<Rightarrow> datetime \<Rightarrow> booking list" where
  "week_offset_bookings db client_id start_date =
     (let monday = calendar_week_start start_date;
          week_start = start_date - timedelta (weekday start_date) 0
      in filter (\<lambda>b. booking_client_id b = client_id
                    \<and> booking_status b \<noteq> ''cancelled''
                    \<and> ((monday \<le> booking_date b \<and> booking_date b < week_start)
                       \<or> (monday + timedelta 7 0 \<le> booking_date b
                           \<and> booking_date b < week_start + timedelta 7 0)))
           (bookings db))"

text \<open>The model that a pass of the retry loop builds for a number of sessions.\<close>

definition partial_model :: "scheduling_data \<Rightarrow> int \<Rightarrow> datetime \<Rightarrow> int \<Rightarrow> cp_model" where
  "partial_model sd client_id now num_sessions =
     model (fst (run_steps (partial_steps sd client_id now)
                   (create_model sd num_sessions new_scheduler)))"

section \<open>Suggestion sessions (class SuggestionSession)\<close>

text \<open>
  The two JSON columns are modelled by the values they encode: the list of
  suggestions, and the list of slot ids, \<open>None\<close> for a NULL column.
\<close>

record suggestion_session =
  ss_client_id :: int
  session_token :: string
  ss_preferred_date :: "date option"
  ss_days_flexibility :: int
  ss_num_sessions :: int
  suggestions_json :: "suggestion list"
  all_suggested_slots_json :: "int list option"
  ss_is_active :: bool
  expires_at :: datetime

definition get_all_suggested_slots :: "suggestion_session \<Rightarrow> int list" where
  "get_all_suggested_slots session =
     (case all_suggested_slots_json session of None \<Rightarrow> [] | Some ids \<Rightarrow> ids)"

text \<open>The loop of \<^verbatim>\<open>add_to_suggested_history\<close>.\<close>

fun append_new :: "int list \<Rightarrow> int list \<Rightarrow> int list" where
  "append_new existing_slots [] = existing_slots"
| "append_new existing_slots (sid # new_slot_ids) =
     append_new (if sid \<notin> set existing_slots then existing_slots @ [sid]
                 else existing_slots) new_slot_ids"

definition add_to_suggested_history :: "int list \<Rightarrow> suggestion_session \<Rightarrow> suggestion_session" where
  "add_to_suggested_history new_slot_ids session =
     (let existing_slots =
            (case all_suggested_slots_json session of None \<Rightarrow> [] | Some ids \<Rightarrow> ids)
      in session\<lparr>all_suggested_slots_json := Some (append_new existing_slots new_slot_ids)\<rparr>)"

section \<open>The suggestion routes (app/routes/schedule.py)\<close>

datatype failure_detail =
    Session_not_found
  | Access_denied
  | Session_has_expired
  | Slot_not_in_current_suggestions int
  | No_alternative_slots

text \<open>
  Every route wraps its body in \<^verbatim>\<open>except Exception\<close> and raises status 500 with the
  text of what it caught, the 404, 403 and 410 of the body included.
\<close>

datatype http_exception = HTTPException int failure_detail

definition slot_ids_of :: "suggestion list \<Rightarrow> int list" where
  \<comment> \<open>\<^verbatim>\<open>[sugg.get('slot_id') for sugg in suggestions if sugg.get('slot_id')]\<close>\<close>
  "slot_ids_of suggestions = filter (\<lambda>i. i \<noteq> 0) (map sg_slot_id suggestions)"

definition suggest_optimal_booking ::
  "cp_solver \<Rightarrow> database \<Rightarrow> datetime \<Rightarrow> string \<Rightarrow> int \<Rightarrow> date option \<Rightarrow> int \<Rightarrow> int
     \<Rightarrow> scheduling_result \<times> suggestion_session" where
  "suggest_optimal_booking solver db now token client_id preferred_date days_flexibility
       num_sessions =
     (let preferred_datetime = map_option combine_min preferred_date;
          scheduling_result =
            suggest_optimal_bookings solver db now client_id num_sessions preferred_datetime
              days_flexibility []
      in (scheduling_result,
          \<lparr> ss_client_id = client_id,
            session_token = token,
            ss_preferred_date = preferred_date,
            ss_days_flexibility = days_flexibility,
            ss_num_sessions = num_sessions,
            suggestions_json = suggested_slots scheduling_result,
            all_suggested_slots_json = None,
            ss_is_active = True,
            expires_at = now + timedelta 0 1 \<rparr>))"

definition re_suggest_session_based ::
  "cp_solver \<Rightarrow> database \<Rightarrow> datetime \<Rightarrow> datetime \<Rightarrow> int \<Rightarrow> suggestion_session option
     \<Rightarrow> http_exception + scheduling_result \<times> suggestion_session" where
  "re_suggest_session_based solver db now utcnow current_user_id found =
     (case found of
        None \<Rightarrow> Inl (HTTPException 500 Session_not_found)
      | Some session \<Rightarrow>
          if ss_client_id session \<noteq> current_user_id then Inl (HTTPException 500 Access_denied)
          else if utcnow > expires_at session then Inl (HTTPException 500 Session_has_expired)
          else
            (let preferred_datetime = map_option combine_min (ss_preferred_date session);
                 current_slot_ids = slot_ids_of (suggestions_json session);
                 session1 = add_to_suggested_history current_slot_ids session;
                 excluded_slot_ids = get_all_suggested_slots session1;
                 scheduling_result =
                   suggest_optimal_bookings solver db now (ss_client_id session1)
                     (ss_num_sessions session1) preferred_datetime (ss_days_flexibility session1)
                     excluded_slot_ids;
                 session2 =
                   (if suggested_slots scheduling_result \<noteq> []
                    then add_to_suggested_history (slot_ids_of (suggested_slots scheduling_result))
                           session1
                    else session1)
             in Inr (scheduling_result,
                     session2\<lparr>suggestions_json := suggested_slots scheduling_result\<rparr>)))"

definition re_suggest_individual_slot ::
  "cp_solver \<Rightarrow> database \<Rightarrow> datetime \<Rightarrow> datetime \<Rightarrow> int \<Rightarrow> suggestion_session option \<Rightarrow> int
     \<Rightarrow> http_exception + suggestion \<times> suggestion_session" where
  "re_suggest_individual_slot solver db now utcnow current_user_id found replaced_slot_id =
     (case found of
        None \<Rightarrow> Inl (HTTPException 500 Session_not_found)
      | Some session \<Rightarrow>
          if ss_client_id session \<noteq> current_user_id then Inl (HTTPException 500 Access_denied)
          else if utcnow > expires_at session then Inl (HTTPException 500 Session_has_expired)
          else
            (let current_suggestions = suggestions_json session in
             case find (\<lambda>sugg. sg_slot_id sugg = replaced_slot_id) current_suggestions of
               None \<Rightarrow> Inl (HTTPException 500 (Slot_not_in_current_suggestions replaced_slot_id))
             | Some target_suggestion \<Rightarrow>
                 (let history = get_all_suggested_slots session;
                      excluded_slot_ids =
                        (if replaced_slot_id \<notin> set history then history @ [replaced_slot_id] else history);
                      preferred_datetime = map_option combine_min (ss_preferred_date session);
                      scheduling_result =
                        suggest_optimal_bookings solver db now (ss_client_id session) 1
                          preferred_datetime (ss_days_flexibility session) excluded_slot_ids
                  in case suggested_slots scheduling_result of
                       [] \<Rightarrow> Inl (HTTPException 500 No_alternative_slots)
                     | new_suggestion # others \<Rightarrow>
                         (let new_slot_id = sg_slot_id new_suggestion;
                              updated_suggestions =
                                map (\<lambda>sugg. if sg_slot_id sugg = replaced_slot_id then new_suggestion
                                             else sugg) current_suggestions;
                              session1 = add_to_suggested_history [new_slot_id] session
                          in Inr (new_suggestion,
                                  session1\<lparr>suggestions_json := updated_suggestions\<rparr>)))))"

section \<open>A reference solver\<close>

text \<open>
  An exhaustive stand-in for the external solver, used where a theorem is evaluated at
  a concrete request: it tries every set of variables, keeps those that satisfy all
  constraints and returns one of greatest objective value with status OPTIMAL, or
  INFEASIBLE when there is none.
\<close>

definition assignment :: "int list \<Rightarrow> int \<Rightarrow> int" where
  "assignment chosen i = (if i \<in> set chosen then 1 else 0)"

definition feasible :: "cp_model \<Rightarrow> int list \<Rightarrow> bool" where
  "feasible m chosen = list_all (holds (assignment chosen)) (constraints m)"

definition objective_of :: "cp_model \<Rightarrow> int list \<Rightarrow> int" where
  "objective_of m chosen = sum_list (map (\<lambda>(i, c). assignment chosen i * c) (objective m))"

definition reference_solver :: cp_solver where
  "reference_solver m =
     (case filter (feasible m) (subseqs (remdups (variables m))) of
        [] \<Rightarrow> \<lparr> response_status = INFEASIBLE,
                 response_value = (\<lambda>i. Inl RuntimeError_no_solution),
                 response_objective = 0 \<rparr>
      | c # cs \<Rightarrow>
          (let best = fold (\<lambda>x b. if objective_of m x > objective_of m b then x else b) cs c
           in \<lparr> response_status = OPTIMAL,
                 response_value = (\<lambda>i. Inr (assignment best i)),
                 response_objective = objective_of m best \<rparr>))"


section \<open>Concrete requests\<close>

text \<open>
  The data of the requests at which theorems are evaluated. Day 739543 is Monday
  2025-10-20; client 18 has a plan of three sessions a week with coach 7.
\<close>

definition mk_datetime :: "date \<Rightarrow> int \<Rightarrow> int \<Rightarrow> datetime" where
  \<comment> \<open>the day, the hour and the minute\<close>
  "mk_datetime d h m = combine_min d + timedelta 0 h + m * 60000000"

definition example_plan :: client_plan where
  "example_plan = \<lparr> plan_client_id = 18, sessions_per_week = Some 3, assigned_coach_id = 7 \<rparr>"

definition monday_10 :: schedule_slot where
  "monday_10 = \<lparr> slot_id = 1, day_of_week = 0, start_hour = 10, slot_coach_id = 7, capacity = 10 \<rparr>"

definition sunday_20 :: schedule_slot where
  "sunday_20 = \<lparr> slot_id = 2, day_of_week = 6, start_hour = 20, slot_coach_id = 7, capacity = 10 \<rparr>"

definition thursday_10 :: schedule_slot where
  "thursday_10 = \<lparr> slot_id = 3, day_of_week = 3, start_hour = 10, slot_coach_id = 7, capacity = 10 \<rparr>"

definition example_db :: "client_plan \<Rightarrow> schedule_slot list \<Rightarrow> booking list \<Rightarrow> database" where
  "example_db plan slots bs =
     \<lparr> get_client_plan = (\<lambda>c. if c = 18 then Some plan else None),
       get_client_preference = (\<lambda>c. None),
       get_available_slots_for_client = (\<lambda>c t. if c = 18 then slots else []),
       bookings = bs,
       coach_full_name = (\<lambda>c. if c = 7 then Some ''Dana Levi'' else None) \<rparr>"

definition example_session :: suggestion_session where
  "example_session =
     \<lparr> ss_client_id = 18,
       session_token = ''token'',
       ss_preferred_date = None,
       ss_days_flexibility = 7,
       ss_num_sessions = 2,
       suggestions_json = [],
       all_suggested_slots_json = Some [1, 2],
       ss_is_active = True,
       expires_at = mk_datetime 739543 13 0 \<rparr>"




definition booking_on :: "date \<Rightarrow> int \<Rightarrow> booking" where
  "booking_on d h =
     \<lparr> booking_client_id = 18, booking_coach_id = 7, booking_date = mk_datetime d h 0,
       booking_status = ''confirmed'' \<rparr>"

definition three_bookings :: "booking list" where
  \<comment> \<open>Tuesday, Wednesday and Friday of the week of 2025-10-20, at 10:00\<close>
  "three_bookings = [booking_on 739544 10, booking_on 739545 10, booking_on 739547 10]"

definition daily_slots :: "schedule_slot list" where
  \<comment> \<open>Monday to Saturday at 10:00, slot ids 1 to 6\<close>
  "daily_slots =
     map (\<lambda>d. \<lparr> slot_id = d + 1, day_of_week = d, start_hour = 10, slot_coach_id = 7,
                   capacity = 10 \<rparr>) [0, 1, 2, 3, 4, 5]"

definition plan_of_seven :: client_plan where
  "plan_of_seven = \<lparr> plan_client_id = 18, sessions_per_week = Some 7, assigned_coach_id = 7 \<rparr>"

definition all_true_solver :: cp_solver where
  \<comment> \<open>a solver that reports FEASIBLE with every variable at 1\<close>
  "all_true_solver m =
     \<lparr> response_status = FEASIBLE, response_value = (\<lambda>i. Inr 1), response_objective = 0 \<rparr>"

definition one_of_two_model :: cp_model where
  "one_of_two_model =
     \<lparr> variables = [1, 2], constraints = [ExactCount [1, 2] 1, ForceZero 1],
       objective = [(1, 10), (2, 5)] \<rparr>"

definition impossible_model :: cp_model where
  "impossible_model =
     \<lparr> variables = [1], constraints = [ExactCount [1] 1, ForceZero 1], objective = [(1, 10)] \<rparr>"

definition two_bookings :: "booking list" where
  "two_bookings = [booking_on 739544 10, booking_on 739545 10]"

definition quota_full_db :: database where
  "quota_full_db = example_db example_plan [monday_10] three_bookings"

definition quota_left_db :: database where
  "quota_left_db = example_db example_plan [monday_10, sunday_20, thursday_10] two_bookings"

definition coach_booking :: "int \<Rightarrow> booking" where
  \<comment> \<open>a booking of another client with the given coach, on Tuesday 2025-10-21 at 10:00\<close>
  "coach_booking coach =
     \<lparr> booking_client_id = 30, booking_coach_id = coach, booking_date = mk_datetime 739544 10 0,
       booking_status = ''confirmed'' \<rparr>"

definition five_coach_db :: database where
  \<comment> \<open>coaches 7 to 10 with one booking each, coach 11 with two\<close>
  "five_coach_db = example_db example_plan [monday_10] (map coach_booking [7, 8, 9, 10, 11, 11])"

definition early_week_db :: database where
  \<comment> \<open>bookings on Monday, Tuesday and Wednesday of the week of 2025-10-20, at 10:00\<close>
  "early_week_db =
     example_db example_plan daily_slots
       [booking_on 739543 10, booking_on 739544 10, booking_on 739545 10]"

text \<open>
  A session of two suggestions on a coach with two slots, and two rounds of
  "re-suggest all" on it; each round finds the session as the round before stored it.
\<close>

definition session_after ::
  "http_exception + scheduling_result \<times> suggestion_session \<Rightarrow> suggestion_session option" where
  "session_after outcome = (case outcome of Inl e \<Rightarrow> None | Inr (r, session) \<Rightarrow> Some session)"

definition result_of ::
  "http_exception + scheduling_result \<times> suggestion_session \<Rightarrow> scheduling_result option" where
  "result_of outcome = (case outcome of Inl e \<Rightarrow> None | Inr (r, session) \<Rightarrow> Some r)"

definition two_slot_db :: database where
  "two_slot_db = example_db example_plan [monday_10, thursday_10] []"

definition first_session :: suggestion_session where
  "first_session =
     snd (suggest_optimal_booking reference_solver two_slot_db (mk_datetime 739543 8 0)
            ''token'' 18 None 7 2)"

definition first_re_suggest :: "http_exception + scheduling_result \<times> suggestion_session" where
  "first_re_suggest =
     re_suggest_session_based reference_solver two_slot_db (mk_datetime 739543 8 5)
       (mk_datetime 739543 8 5) 18 (Some first_session)"

definition second_re_suggest :: "http_exception + scheduling_result \<times> suggestion_session" where
  "second_re_suggest =
     re_suggest_session_based reference_solver two_slot_db (mk_datetime 739543 8 10)
       (mk_datetime 739543 8 10) 18 (session_after first_re_suggest)"

definition two_slot_data :: scheduling_data where
  "two_slot_data = projr (gather_scheduling_data two_slot_db (mk_datetime 739543 8 0) 18 None 7)"

definition wrap_db :: database where
  "wrap_db = example_db example_plan [monday_10, sunday_20] []"

section \<open>Properties of the suggestion history\<close>

lemma first_seen_cons:
  "rev (remdups (rev (x # ys))) = x # rev (remdups (rev (filter (\<lambda>i. i \<noteq> x) ys)))"
proof -
  have "remdups (zs @ [x]) = remdups (filter (\<lambda>i. i \<noteq> x) zs) @ [x]" for zs :: "'a list"
    by (induction zs) auto
  then show ?thesis by (simp add: rev_filter)
qed

lemma append_new_eq:
  "append_new old ids = old @ rev (remdups (rev (filter (\<lambda>i. i \<notin> set old) ids)))"
proof (induction ids arbitrary: old)
  case Nil
  then show ?case by simp
next
  case (Cons x xs)
  show ?case
  proof (cases "x \<in> set old")
    case True
    then show ?thesis using Cons.IH [of old] by simp
  next
    case False
    have "filter (\<lambda>i. i \<noteq> x) (filter (\<lambda>i. i \<notin> set old) xs)
          = filter (\<lambda>i. i \<notin> set (old @ [x])) xs"
      by (induction xs) auto
    then show ?thesis
      using False Cons.IH [of "old @ [x]"] first_seen_cons [of x "filter (\<lambda>i. i \<notin> set old) xs"]
      by simp
  qed
qed

lemma append_new_present:
  "set ids \<subseteq> set old \<Longrightarrow> append_new old ids = old"
  by (induction ids arbitrary: old) auto

text \<open>
  C9. \<^verbatim>\<open>add_to_suggested_history\<close> only appends. The history read back afterwards is
  the old history followed by the ids that were not in it, each once, in the order of
  their first occurrence in the argument; so every old id stays, and the set of ids is
  the old set joined with the argument. When all ids of the argument are already
  present the history is unchanged, and calling the method a second time with the same
  list leaves the session as the first call made it.
\<close>

theorem add_to_suggested_history_append_only:
  "get_all_suggested_slots (add_to_suggested_history ids s)
     = get_all_suggested_slots s
       @ rev (remdups (rev (filter (\<lambda>i. i \<notin> set (get_all_suggested_slots s)) ids)))
   \<and> set (get_all_suggested_slots s) \<subseteq> set (get_all_suggested_slots (add_to_suggested_history ids s))
   \<and> set (get_all_suggested_slots (add_to_suggested_history ids s))
       = set (get_all_suggested_slots s) \<union> set ids
   \<and> (set ids \<subseteq> set (get_all_suggested_slots s) \<longrightarrow>
        get_all_suggested_slots (add_to_suggested_history ids s) = get_all_suggested_slots s)
   \<and> add_to_suggested_history ids (add_to_suggested_history ids s) = add_to_suggested_history ids s"
proof -
  let ?old = "get_all_suggested_slots s"
  have new: "get_all_suggested_slots (add_to_suggested_history ids s) = append_new ?old ids"
    by (simp add: get_all_suggested_slots_def add_to_suggested_history_def)
  have eq: "append_new ?old ids = ?old @ rev (remdups (rev (filter (\<lambda>i. i \<notin> set ?old) ids)))"
    by (rule append_new_eq)
  have sets: "set (append_new ?old ids) = set ?old \<union> set ids"
    unfolding eq by auto
  have again: "append_new (append_new ?old ids) ids = append_new ?old ids"
    by (rule append_new_present) (simp add: sets)
  have idem: "add_to_suggested_history ids (add_to_suggested_history ids s) = add_to_suggested_history ids s"
    using again by (simp add: add_to_suggested_history_def get_all_suggested_slots_def)
  show ?thesis
    using new eq sets idem append_new_present [of ids ?old] by auto
qed

theorem add_to_suggested_history_witness:
  "get_all_suggested_slots example_session = [1, 2]
   \<and> get_all_suggested_slots (add_to_suggested_history [2, 3, 3, 1, 4] example_session) = [1, 2, 3, 4]
   \<and> set [2, 1, 2] \<subseteq> set (get_all_suggested_slots example_session)
   \<and> get_all_suggested_slots (add_to_suggested_history [2, 1, 2] example_session) = [1, 2]"
proof -
  have h: "get_all_suggested_slots example_session = [1, 2]"
    by (simp add: get_all_suggested_slots_def example_session_def)
  have sub: "set [2, 1, 2] \<subseteq> set (get_all_suggested_slots example_session)"
    by (simp add: h)
  show ?thesis
    using add_to_suggested_history_append_only [of "[2, 3, 3, 1, 4]" example_session]
      add_to_suggested_history_append_only [of "[2, 1, 2]" example_session] sub
    by (simp add: h)
qed


section \<open>The solver invocation step\<close>

text \<open>
  C7. \<^verbatim>\<open>_solve_model\<close> reports one of five pairwise different states: OPTIMAL and
  FEASIBLE under their own names, the solver's INFEASIBLE as \<^verbatim>\<open>NO_SOLUTION\<close>, its
  UNKNOWN as \<^verbatim>\<open>TIMEOUT\<close> and its MODEL-INVALID as \<^verbatim>\<open>INVALID\<close>. The confidence is
  1.0 for OPTIMAL, 0.8 for FEASIBLE and 0.0 for every other status.
\<close>

theorem solve_model_states:
  "sr_status (solve_model solver m)
     = (case response_status (solver m) of
          OPTIMAL \<Rightarrow> ''OPTIMAL'' | FEASIBLE \<Rightarrow> ''FEASIBLE'' | INFEASIBLE \<Rightarrow> ''NO_SOLUTION''
        | UNKNOWN \<Rightarrow> ''TIMEOUT'' | MODEL_INVALID \<Rightarrow> ''INVALID'')
   \<and> sr_status (solve_model solver m)
       \<in> {''OPTIMAL'', ''FEASIBLE'', ''NO_SOLUTION'', ''TIMEOUT'', ''INVALID''}
   \<and> distinct [''OPTIMAL'', ''FEASIBLE'', ''NO_SOLUTION'', ''TIMEOUT'', ''INVALID'']
   \<and> sr_confidence (solve_model solver m)
       = (case response_status (solver m) of OPTIMAL \<Rightarrow> 1.0 | FEASIBLE \<Rightarrow> 0.8 | _ \<Rightarrow> 0.0)"
  by (cases "response_status (solver m)") (simp_all add: solve_model_def status_map_def)

theorem solve_model_states_witness:
  "sr_status (solve_model reference_solver one_of_two_model) = ''OPTIMAL''
   \<and> sr_confidence (solve_model reference_solver one_of_two_model) = 1.0
   \<and> sr_status (solve_model reference_solver impossible_model) = ''NO_SOLUTION''
   \<and> sr_confidence (solve_model reference_solver impossible_model) = 0.0
   \<and> sr_status (solve_model all_true_solver impossible_model) = ''FEASIBLE''
   \<and> sr_confidence (solve_model all_true_solver impossible_model) = 0.8"
proof -
  have a: "response_status (reference_solver one_of_two_model) = OPTIMAL"
    by code_simp
  have b: "response_status (reference_solver impossible_model) = INFEASIBLE"
    by code_simp
  have c: "response_status (all_true_solver impossible_model) = FEASIBLE"
    by (simp add: all_true_solver_def)
  show ?thesis
    using solve_model_states [of reference_solver one_of_two_model]
      solve_model_states [of reference_solver impossible_model]
      solve_model_states [of all_true_solver impossible_model] a b c
    by simp
qed

section \<open>The number of suggestions\<close>

lemma extract_suggestions_length:
  "extract_suggestions db sd sr resp = Inr xs \<Longrightarrow> length xs \<le> max_suggestions"
  by (auto simp: extract_suggestions_def split: if_splits sum.splits)

lemma partial_attempt_length:
  "partial_attempt solver db sd cid now orig s0 k = (s', Some r)
   \<Longrightarrow> length (suggested_slots r) \<le> max_suggestions"
  by (auto simp: partial_attempt_def Let_def extract_suggestions_length
           split: prod.splits option.splits sum.splits if_splits)

lemma partial_loop_length:
  "partial_loop solver db sd cid now orig s ks = (s', Some r)
   \<Longrightarrow> length (suggested_slots r) \<le> max_suggestions"
proof (induction ks arbitrary: s)
  case Nil
  then show ?case by simp
next
  case (Cons k ks)
  then show ?case
    by (auto split: prod.splits option.splits dest: partial_attempt_length)
qed

lemma create_detailed_failure_analysis_empty:
  "create_detailed_failure_analysis cid sd n ex = Inr r
   \<Longrightarrow> suggested_slots r = [] \<and> solver_status r = NO_SOLUTION_DETAILED"
  by (auto simp: create_detailed_failure_analysis_def Let_def
           split: sum.splits option.splits if_splits)

lemma try_partial_solutions_length:
  "try_partial_solutions solver db cid now sd orig s = Inr r
   \<Longrightarrow> length (suggested_slots r) \<le> max_suggestions"
  by (auto simp: try_partial_solutions_def split: prod.splits option.splits
           dest: partial_loop_length create_detailed_failure_analysis_empty)

lemma solve_with_data_length:
  "solve_with_data solver db now cid sd n ex = Inr r
   \<Longrightarrow> length (suggested_slots r) \<le> max_suggestions"
  by (auto simp: solve_with_data_def Let_def
           split: prod.splits option.splits sum.splits if_splits
           dest: try_partial_solutions_length extract_suggestions_length)

lemma create_quota_exceeded_result_empty:
  "create_quota_exceeded_result db now cid wl cur = Inr r
   \<Longrightarrow> suggested_slots r = [] \<and> solver_status r = WEEKLY_QUOTA_EXCEEDED"
  by (auto simp: create_quota_exceeded_result_def Let_def split: sum.splits option.splits)

lemma suggest_body_length:
  "suggest_body solver db now cid n pd df ex = Inr r
   \<Longrightarrow> length (suggested_slots r) \<le> max_suggestions"
  by (auto simp: suggest_body_def Let_def create_no_availability_result_def
           split: sum.splits if_splits option.splits
           dest: solve_with_data_length create_quota_exceeded_result_empty)

text \<open>
  C8. Whatever the solver answers and whatever number of sessions is asked for, the
  list \<^verbatim>\<open>suggested_slots\<close> of the result of \<^verbatim>\<open>suggest_optimal_bookings\<close> has at most
  five entries.
\<close>

theorem suggested_slots_at_most_five:
  "length (suggested_slots (suggest_optimal_bookings solver db now client_id num_sessions
             preferred_date days_flexibility excluded_slot_ids)) \<le> 5"
proof (cases "suggest_body solver db now client_id num_sessions preferred_date
                days_flexibility excluded_slot_ids")
  case (Inl e)
  then show ?thesis
    by (simp add: suggest_optimal_bookings_def create_error_result_def)
next
  case (Inr r)
  then show ?thesis
    using suggest_body_length [OF Inr]
    by (simp add: suggest_optimal_bookings_def max_suggestions_def)
qed

theorem suggested_slots_at_most_five_witness:
  "length (filter (\<lambda>slot. response_value (all_true_solver impossible_model) (slot_id slot) = Inr 1)
             daily_slots) = 6
   \<and> length (suggested_slots (suggest_optimal_bookings all_true_solver
                (example_db plan_of_seven daily_slots []) (mk_datetime 739543 8 0) 18 6 None 7 []))
       = 5"
proof -
  have a: "length (filter (\<lambda>slot. response_value (all_true_solver impossible_model) (slot_id slot) = Inr 1)
             daily_slots) = 6"
    by (simp add: all_true_solver_def daily_slots_def)
  have b: "5 \<le> length (suggested_slots (suggest_optimal_bookings all_true_solver
                (example_db plan_of_seven daily_slots []) (mk_datetime 739543 8 0) 18 6 None 7 []))"
    by code_simp
  show ?thesis
    using suggested_slots_at_most_five [of all_true_solver
        "example_db plan_of_seven daily_slots []" "mk_datetime 739543 8 0" 18 6 None 7 "[]"] a b
    by simp
qed

section \<open>A plan whose weekly limit is not set\<close>

lemma unset_limit_steps:
  assumes "sessions_per_week (sd_client_plan sd) = None"
  shows "add_weekly_quota_constraints sd client_id s = Inl TypeError_none"
    and "generate_week_status_message client_id sd = Inl TypeError_none"
    and "create_detailed_failure_analysis client_id sd num_sessions explanations
           = Inl TypeError_none"
  using assms
  by (simp_all add: add_weekly_quota_constraints_def generate_week_status_message_def
        create_detailed_failure_analysis_def weekly_limit_of_def Let_def)

lemma unset_limit_request:
  assumes "gather_scheduling_data db now client_id preferred_date days_flexibility = Inr sd"
    and "available_slots sd \<noteq> []"
    and "sessions_per_week (sd_client_plan sd) = None"
  shows "suggest_optimal_bookings solver db now client_id num_sessions preferred_date
           days_flexibility excluded_slot_ids = create_error_result client_id TypeError_none"
  using assms
  by (simp add: suggest_optimal_bookings_def suggest_body_def weekly_limit_of_def Let_def)



section \<open>The weekly quota check\<close>

text \<open>
  The week the scheduler counts starts on the Monday of the start date at the start
  date's time of day; the calendar week starts at 00:00 of that Monday.
\<close>

lemma week_start_offset:
  "start_date - timedelta (weekday start_date) 0
     = calendar_week_start start_date + start_date mod us_per_day"
  by (simp add: calendar_week_start_def timedelta_def weekday_def date_of_def combine_min_def
        algebra_simps minus_mult_div_eq_mod [symmetric])

lemma us_per_day_pos: "0 < us_per_day"
  by (simp add: us_per_day_def us_per_hour_def)

lemma calendar_week_in_reach:
  "start_date - timedelta 7 0 \<le> calendar_week_start start_date"
proof -
  have "date_of start_date mod 7 \<le> 6" by simp
  then have "(date_of start_date mod 7) * us_per_day \<le> 6 * us_per_day"
    using us_per_day_pos by (simp only: mult_right_mono less_imp_le)
  moreover have "start_date mod us_per_day < us_per_day"
    using us_per_day_pos by simp
  moreover have "start_date = date_of start_date * us_per_day + start_date mod us_per_day"
    by (simp add: date_of_def)
  ultimately show ?thesis
    by (simp add: calendar_week_start_def timedelta_def weekday_def combine_min_def
          algebra_simps)
qed

lemma count_is_calendar:
  assumes "gather_scheduling_data db now client_id preferred_date days_flexibility = Inr sd"
    and "week_offset_bookings db client_id (fst (time_window sd)) = []"
  shows "count_current_week_bookings sd
           = calendar_week_bookings db client_id (fst (time_window sd))"
proof -
  let ?start = "fst (time_window sd)"
  let ?monday = "calendar_week_start ?start"
  let ?week_start = "?start - timedelta (weekday ?start) 0"
  have eb: "existing_bookings sd = get_client_recent_bookings db client_id ?start"
    using assms(1)
    by (auto simp: gather_scheduling_data_def Let_def split: option.splits)
  have off: "?week_start = ?monday + ?start mod us_per_day"
    by (rule week_start_offset)
  have lo: "0 \<le> ?start mod us_per_day" and hi: "?start mod us_per_day < us_per_day"
    using us_per_day_pos by simp_all
  have reach: "?start - timedelta 7 0 \<le> ?monday"
    by (rule calendar_week_in_reach)
  have none: "\<not> (booking_client_id b = client_id \<and> booking_status b \<noteq> ''cancelled''
                \<and> ((?monday \<le> booking_date b \<and> booking_date b < ?week_start)
                    \<or> (?monday + timedelta 7 0 \<le> booking_date b
                        \<and> booking_date b < ?week_start + timedelta 7 0)))"
    if "b \<in> set (bookings db)" for b
    using assms(2) that
    by (simp add: week_offset_bookings_def Let_def filter_empty_conv)
  have same: "(booking_client_id b = client_id
                 \<and> ?start - timedelta 7 0 \<le> booking_date b
                 \<and> booking_status b \<noteq> ''cancelled'')
               \<and> (?week_start \<le> booking_date b \<and> booking_date b < ?week_start + timedelta 7 0)
             \<longleftrightarrow> booking_client_id b = client_id \<and> booking_status b \<noteq> ''cancelled''
                 \<and> ?monday \<le> booking_date b \<and> booking_date b < ?monday + timedelta 7 0"
    if "b \<in> set (bookings db)" for b
    using none [OF that] off lo hi reach by auto
  have "filter (\<lambda>b. ?week_start \<le> booking_date b \<and> booking_date b < ?week_start + timedelta 7 0)
          (existing_bookings sd)
        = filter (\<lambda>b. booking_client_id b = client_id \<and> booking_status b \<noteq> ''cancelled''
                      \<and> ?monday \<le> booking_date b \<and> booking_date b < ?monday + timedelta 7 0)
            (bookings db)"
    unfolding eb get_client_recent_bookings_def Let_def filter_filter
    by (rule filter_cong [OF refl]) (use same in auto)
  then show ?thesis
    by (simp add: count_current_week_bookings_def calendar_week_bookings_def Let_def)
qed

lemma quota_exceeded_result_of_plan:
  assumes "get_client_plan db client_id = Some plan" and "sessions_per_week plan = Some l"
  shows "\<exists>msg. create_quota_exceeded_result db now client_id weekly_limit current_bookings
           = Inr \<lparr> result_client_id = client_id, suggested_slots = [], total_suggestions = 0,
                   solver_status = WEEKLY_QUOTA_EXCEEDED, confidence_score = 0,
                   constraints_satisfied = [msg], reasons = [ONLY_OPTION] \<rparr>"
  using assms
  by (simp add: create_quota_exceeded_result_def generate_week_status_message_def
        weekly_limit_of_def Let_def)

lemma gather_plan_is:
  "gather_scheduling_data db now c pd df = Inr sd \<Longrightarrow> get_client_plan db c = Some (sd_client_plan sd)"
  by (auto simp: gather_scheduling_data_def Let_def split: option.splits)

text \<open>
  C4, as the claim states it, fails where no candidate slot is available: the check for
  an empty slot list comes first. Client 18 has a plan of 3 sessions and 3 bookings in
  the calendar week of the start date, so the remaining quota is 0, and the result is
  the no-availability result.
\<close>

theorem quota_check_counterexample:
  "map_option sessions_per_week
       (get_client_plan (example_db example_plan [] three_bookings) 18) = Some (Some 3)
   \<and> calendar_week_bookings (example_db example_plan [] three_bookings) 18
       (mk_datetime 739543 8 0) = 3
   \<and> solver_status (suggest_optimal_bookings reference_solver
         (example_db example_plan [] three_bookings) (mk_datetime 739543 8 0) 18 1 None 7 [])
       = NO_AVAILABILITY
   \<and> NO_AVAILABILITY \<noteq> WEEKLY_QUOTA_EXCEEDED"
  by code_simp

text \<open>
  C4, amended. When no candidate slot is available the result is the no-availability
  result, whatever the quota. For a client with a plan, a weekly limit and at least one
  available slot, the remaining quota being the limit minus the client's bookings
  (cancelled ones apart) in the calendar week of the start date: when it is at most 0
  the result is the quota-exceeded result, with status \<^verbatim>\<open>WEEKLY_QUOTA_EXCEEDED\<close> and no
  suggestion, and it is the same for every solver (the solver is not consulted); when
  it is positive and below the requested number of sessions, the request is solved for
  the remaining quota. Requests with a booking between 00:00 of a Monday and the start
  date's time of day on that Monday, in the week of the start date or the week after,
  are left aside.
\<close>

theorem quota_check_before_solving:
  assumes "gather_scheduling_data db now client_id preferred_date days_flexibility = Inr sd"
  shows "(available_slots sd = [] \<longrightarrow>
            suggest_optimal_bookings solver db now client_id num_sessions preferred_date
                days_flexibility excluded_slot_ids = create_no_availability_result client_id)
     \<and> (available_slots sd \<noteq> []
          \<and> sessions_per_week (sd_client_plan sd) = Some weekly_limit
          \<and> week_offset_bookings db client_id (fst (time_window sd)) = [] \<longrightarrow>
         (weekly_limit - calendar_week_bookings db client_id (fst (time_window sd)) \<le> 0 \<longrightarrow>
            create_quota_exceeded_result db now client_id weekly_limit
                (calendar_week_bookings db client_id (fst (time_window sd)))
              = Inr (suggest_optimal_bookings solver db now client_id num_sessions preferred_date
                       days_flexibility excluded_slot_ids)
          \<and> solver_status (suggest_optimal_bookings solver db now client_id num_sessions
                preferred_date days_flexibility excluded_slot_ids) = WEEKLY_QUOTA_EXCEEDED
          \<and> suggested_slots (suggest_optimal_bookings solver db now client_id num_sessions
                preferred_date days_flexibility excluded_slot_ids) = []
          \<and> total_suggestions (suggest_optimal_bookings solver db now client_id num_sessions
                preferred_date days_flexibility excluded_slot_ids) = 0
          \<and> suggest_optimal_bookings solver db now client_id num_sessions preferred_date
                days_flexibility excluded_slot_ids
              = suggest_optimal_bookings other_solver db now client_id num_sessions preferred_date
                days_flexibility excluded_slot_ids)
       \<and> (0 < weekly_limit - calendar_week_bookings db client_id (fst (time_window sd))
            \<and> weekly_limit - calendar_week_bookings db client_id (fst (time_window sd))
                < num_sessions \<longrightarrow>
            suggest_body solver db now client_id num_sessions preferred_date days_flexibility
                excluded_slot_ids
              = solve_with_data solver db now client_id sd
                  (weekly_limit - calendar_week_bookings db client_id (fst (time_window sd)))
                  excluded_slot_ids
          \<and> suggest_optimal_bookings solver db now client_id num_sessions preferred_date
                days_flexibility excluded_slot_ids
              = suggest_optimal_bookings solver db now client_id
                  (weekly_limit - calendar_week_bookings db client_id (fst (time_window sd)))
                  preferred_date days_flexibility excluded_slot_ids))"
proof -
  let ?cal = "calendar_week_bookings db client_id (fst (time_window sd))"
  have empty: "suggest_optimal_bookings solver db now client_id num_sessions preferred_date
                 days_flexibility excluded_slot_ids = create_no_availability_result client_id"
    if "available_slots sd = []"
    using assms that by (simp add: suggest_optimal_bookings_def suggest_body_def)
  have rest: "(weekly_limit - ?cal \<le> 0 \<longrightarrow>
            create_quota_exceeded_result db now client_id weekly_limit ?cal
              = Inr (suggest_optimal_bookings solver db now client_id num_sessions preferred_date
                       days_flexibility excluded_slot_ids)
          \<and> solver_status (suggest_optimal_bookings solver db now client_id num_sessions
                preferred_date days_flexibility excluded_slot_ids) = WEEKLY_QUOTA_EXCEEDED
          \<and> suggested_slots (suggest_optimal_bookings solver db now client_id num_sessions
                preferred_date days_flexibility excluded_slot_ids) = []
          \<and> total_suggestions (suggest_optimal_bookings solver db now client_id num_sessions
                preferred_date days_flexibility excluded_slot_ids) = 0
          \<and> suggest_optimal_bookings solver db now client_id num_sessions preferred_date
                days_flexibility excluded_slot_ids
              = suggest_optimal_bookings other_solver db now client_id num_sessions preferred_date
                days_flexibility excluded_slot_ids)
       \<and> (0 < weekly_limit - ?cal \<and> weekly_limit - ?cal < num_sessions \<longrightarrow>
            suggest_body solver db now client_id num_sessions preferred_date days_flexibility
                excluded_slot_ids
              = solve_with_data solver db now client_id sd (weekly_limit - ?cal)
                  excluded_slot_ids
          \<and> suggest_optimal_bookings solver db now client_id num_sessions preferred_date
                days_flexibility excluded_slot_ids
              = suggest_optimal_bookings solver db now client_id (weekly_limit - ?cal)
                  preferred_date days_flexibility excluded_slot_ids)"
    if slots: "available_slots sd \<noteq> []"
      and limit: "sessions_per_week (sd_client_plan sd) = Some weekly_limit"
      and aside: "week_offset_bookings db client_id (fst (time_window sd)) = []"
  proof -
    have count: "count_current_week_bookings sd = ?cal"
      by (rule count_is_calendar [OF assms aside])
    obtain msg where q: "create_quota_exceeded_result db now client_id weekly_limit ?cal
           = Inr \<lparr> result_client_id = client_id, suggested_slots = [], total_suggestions = 0,
                   solver_status = WEEKLY_QUOTA_EXCEEDED, confidence_score = 0,
                   constraints_satisfied = [msg], reasons = [ONLY_OPTION] \<rparr>"
      using quota_exceeded_result_of_plan [OF gather_plan_is [OF assms] limit] by blast
    show ?thesis
      using assms slots limit count q
      by (simp add: suggest_optimal_bookings_def suggest_body_def weekly_limit_of_def Let_def)
  qed
  show ?thesis using empty rest by blast
qed

theorem quota_check_witness:
  "solver_status (suggest_optimal_bookings reference_solver
       (example_db example_plan [] three_bookings) (mk_datetime 739543 8 0) 18 1 None 7 [])
     = NO_AVAILABILITY
   \<and> calendar_week_bookings quota_full_db 18 (mk_datetime 739543 8 0) = 3
   \<and> solver_status (suggest_optimal_bookings reference_solver quota_full_db
         (mk_datetime 739543 8 0) 18 1 None 7 []) = WEEKLY_QUOTA_EXCEEDED
   \<and> calendar_week_bookings quota_left_db 18 (mk_datetime 739543 8 0) = 2
   \<and> suggest_optimal_bookings reference_solver quota_left_db (mk_datetime 739543 8 0) 18 3 None 7 []
       = suggest_optimal_bookings reference_solver quota_left_db (mk_datetime 739543 8 0) 18 1 None 7 []
   \<and> map sg_slot_id (suggested_slots (suggest_optimal_bookings reference_solver quota_left_db
         (mk_datetime 739543 8 0) 18 3 None 7 [])) = [2]"
proof -
  let ?now = "mk_datetime 739543 8 0"
  let ?none_db = "example_db example_plan [] three_bookings"
  let ?none = "projr (gather_scheduling_data ?none_db ?now 18 None 7)"
  let ?full = "projr (gather_scheduling_data quota_full_db ?now 18 None 7)"
  let ?left = "projr (gather_scheduling_data quota_left_db ?now 18 None 7)"
  have n1: "gather_scheduling_data ?none_db ?now 18 None 7 = Inr ?none"
    by (simp add: gather_scheduling_data_def example_db_def Let_def)
  have n2: "available_slots ?none = []"
    by (simp add: gather_scheduling_data_def example_db_def Let_def)
  have f1: "gather_scheduling_data quota_full_db ?now 18 None 7 = Inr ?full"
    by (simp add: gather_scheduling_data_def quota_full_db_def example_db_def Let_def)
  have f2: "available_slots ?full \<noteq> []
            \<and> sessions_per_week (sd_client_plan ?full) = Some 3
            \<and> week_offset_bookings quota_full_db 18 (fst (time_window ?full)) = []"
    by code_simp
  have f3: "calendar_week_bookings quota_full_db 18 (fst (time_window ?full)) = 3"
    by code_simp
  have f4: "fst (time_window ?full) = ?now"
    by (simp add: gather_scheduling_data_def quota_full_db_def example_db_def Let_def)
  have l1: "gather_scheduling_data quota_left_db ?now 18 None 7 = Inr ?left"
    by (simp add: gather_scheduling_data_def quota_left_db_def example_db_def Let_def)
  have l2: "available_slots ?left \<noteq> []
            \<and> sessions_per_week (sd_client_plan ?left) = Some 3
            \<and> week_offset_bookings quota_left_db 18 (fst (time_window ?left)) = []"
    by code_simp
  have l3: "calendar_week_bookings quota_left_db 18 (fst (time_window ?left)) = 2"
    by code_simp
  have l4: "fst (time_window ?left) = ?now"
    by (simp add: gather_scheduling_data_def quota_left_db_def example_db_def Let_def)
  have l5: "map sg_slot_id (suggested_slots (suggest_optimal_bookings reference_solver quota_left_db
         ?now 18 1 None 7 [])) = [2]"
    by code_simp
  have f5: "3 - calendar_week_bookings quota_full_db 18 (fst (time_window ?full)) \<le> 0"
    using f3 by simp
  have l6: "0 < 3 - calendar_week_bookings quota_left_db 18 (fst (time_window ?left))
            \<and> 3 - calendar_week_bookings quota_left_db 18 (fst (time_window ?left)) < 3"
    using l3 by simp
  have s0: "solver_status (suggest_optimal_bookings reference_solver ?none_db ?now 18 1 None 7 [])
              = NO_AVAILABILITY"
    using quota_check_before_solving [where solver = reference_solver and num_sessions = 1
          and excluded_slot_ids = "[]" and other_solver = all_true_solver
          and weekly_limit = 3, OF n1] n2
    by (simp add: create_no_availability_result_def)
  have s1: "solver_status (suggest_optimal_bookings reference_solver quota_full_db
         ?now 18 1 None 7 []) = WEEKLY_QUOTA_EXCEEDED"
    using quota_check_before_solving [where solver = reference_solver and num_sessions = 1
          and excluded_slot_ids = "[]" and other_solver = all_true_solver
          and weekly_limit = 3, OF f1] f2 f5
    by blast
  have s2: "suggest_optimal_bookings reference_solver quota_left_db ?now 18 3 None 7 []
       = suggest_optimal_bookings reference_solver quota_left_db ?now 18
           (3 - calendar_week_bookings quota_left_db 18 (fst (time_window ?left))) None 7 []"
    using quota_check_before_solving [where solver = reference_solver and num_sessions = 3
          and excluded_slot_ids = "[]" and other_solver = all_true_solver
          and weekly_limit = 3, OF l1] l2 l6
    by blast
  have s3: "suggest_optimal_bookings reference_solver quota_left_db ?now 18 3 None 7 []
       = suggest_optimal_bookings reference_solver quota_left_db ?now 18 1 None 7 []"
    using s2 unfolding l3 by simp
  show ?thesis
    using s0 s1 s3 l5 f3 l3 unfolding f4 l4 by (simp only: simp_thms)
qed

text \<open>
  A request left aside above. On Wednesday 2025-10-22 at 15:00 client 18, with a plan
  of 3 sessions, has bookings on Monday, Tuesday and Wednesday of that week at 10:00.
  The week the scheduler counts starts on Monday at 15:00, so it counts 2 bookings
  where the calendar week holds 3, and a fourth session is suggested, for Friday.
\<close>

lemma week_counted_from_time_of_day:
  "calendar_week_bookings early_week_db 18 (mk_datetime 739545 15 0) = 3
   \<and> map_sum id count_current_week_bookings
         (gather_scheduling_data early_week_db (mk_datetime 739545 15 0) 18 None 7) = Inr 2
   \<and> map booking_date (week_offset_bookings early_week_db 18 (mk_datetime 739545 15 0))
       = [mk_datetime 739543 10 0]
   \<and> solver_status (suggest_optimal_bookings reference_solver early_week_db
         (mk_datetime 739545 15 0) 18 1 None 7 []) = Solver_status ''OPTIMAL''
   \<and> map suggestion_datetime (suggested_slots (suggest_optimal_bookings reference_solver
         early_week_db (mk_datetime 739545 15 0) 18 1 None 7 [])) = [mk_datetime 739547 10 0]"
  by code_simp


section \<open>Requests at which the scheduler departs from the specification\<close>

text \<open>
  C1. Two suggestions (slots 1 and 3) are issued for a coach with just these two slots.
  The first "re-suggest all" puts both into the history. At the start of the second
  round the history is \<open>[1, 3]\<close>, the request for two sessions is infeasible, and the
  retry for one session, which posts no exclusion constraint, returns slot 1 again.
\<close>

theorem re_suggest_repeats_history:
  "map sg_slot_id (suggestions_json first_session) = [1, 3]
   \<and> map_option get_all_suggested_slots (session_after first_re_suggest) = Some [1, 3]
   \<and> map_option solver_status (result_of second_re_suggest) = Some (PARTIAL_SOLUTION 1)
   \<and> map_option (\<lambda>r. map sg_slot_id (suggested_slots r)) (result_of second_re_suggest) = Some [1]
   \<and> map_option get_all_suggested_slots (session_after second_re_suggest) = Some [1, 3]"
  by code_simp

text \<open>
  C2. The start date is Tuesday 2025-10-21; the slots are Monday 10:00 and Sunday 20:00.
  The check between new slots takes the day of the week as an offset from the start
  date, finds the two slots 154 hours apart and posts no constraint; both are
  suggested, for Sunday 2025-10-26 20:00 and Monday 2025-10-27 10:00, 14 hours apart.
\<close>

theorem suggestions_too_close:
  "solver_status (suggest_optimal_bookings reference_solver wrap_db (mk_datetime 739543 12 0) 18 2
       (Some (mk_datetime 739544 0 0)) 7 []) = Solver_status ''OPTIMAL''
   \<and> map suggestion_datetime (suggested_slots (suggest_optimal_bookings reference_solver wrap_db
         (mk_datetime 739543 12 0) 18 2 (Some (mk_datetime 739544 0 0)) 7 []))
       = [mk_datetime 739550 10 0, mk_datetime 739549 20 0]
   \<and> map (recovery_slot_datetime (mk_datetime 739544 0 0) (mk_datetime 739543 12 0))
         [monday_10, sunday_20]
       = [Inr (mk_datetime 739550 10 0), Inr (mk_datetime 739549 20 0)]
   \<and> mk_datetime 739550 10 0 - mk_datetime 739549 20 0 = timedelta 0 14
   \<and> timedelta 0 14 < timedelta 0 min_recovery_hours"
  by code_simp

text \<open>
  C3. On Monday 2025-10-20 at 10:30, with no preferred date, the slot Monday 10:00 is
  resolved to the Monday after by the recovery check against bookings and by the
  past-time check, to 20:30 of the same day by the check between new slots, and to the
  same day (at 10:00) by the extraction of results. With the start date Tuesday
  2025-10-21 the slot Sunday 20:00 is Sunday 2025-10-26 for the first and Monday
  2025-10-27 for the check between new slots.
\<close>

theorem slot_resolution_differs:
  "recovery_slot_datetime (mk_datetime 739543 10 30) (mk_datetime 739543 10 30) monday_10
     = Inr (mk_datetime 739550 10 0)
   \<and> current_time_slot_datetime (mk_datetime 739543 10 30) (mk_datetime 739543 10 30) monday_10
     = Inr (mk_datetime 739550 10 0)
   \<and> pairwise_slot_datetime (mk_datetime 739543 10 30) monday_10 = mk_datetime 739543 20 30
   \<and> combine_min (suggestion_date (mk_datetime 739543 10 30) monday_10)
       + timedelta 0 (start_hour monday_10) = mk_datetime 739543 10 0
   \<and> recovery_slot_datetime (mk_datetime 739544 0 0) (mk_datetime 739543 12 0) sunday_20
     = Inr (mk_datetime 739549 20 0)
   \<and> pairwise_slot_datetime (mk_datetime 739544 0 0) sunday_20 = mk_datetime 739550 20 0"
  by code_simp

text \<open>
  C5. With slots 1 and 3 excluded, two sessions are infeasible. The retry for one
  session does not solve under the same constraints: the model of the first attempt
  at count 1 holds \<open>x[1] == 0\<close> and \<open>x[3] == 0\<close> and is infeasible, the model the retry
  builds holds neither, is feasible, and the result is a partial solution with the
  excluded slot 1.
\<close>

theorem retry_drops_exclusions:
  "solver_status (suggest_optimal_bookings reference_solver two_slot_db (mk_datetime 739543 8 0)
       18 2 None 7 [1, 3]) = PARTIAL_SOLUTION 1
   \<and> map sg_slot_id (suggested_slots (suggest_optimal_bookings reference_solver two_slot_db
         (mk_datetime 739543 8 0) 18 2 None 7 [1, 3])) = [1]
   \<and> response_status (reference_solver (model (fst (run_steps
         (main_steps two_slot_data 18 (mk_datetime 739543 8 0) [1, 3])
         (create_model two_slot_data 1 new_scheduler))))) = INFEASIBLE
   \<and> response_status (reference_solver (model (fst (run_steps
         (partial_steps two_slot_data 18 (mk_datetime 739543 8 0))
         (create_model two_slot_data 1 new_scheduler))))) = OPTIMAL
   \<and> filter (\<lambda>c. c = ForceZero 1 \<or> c = ForceZero 3) (constraints (model (fst (run_steps
         (main_steps two_slot_data 18 (mk_datetime 739543 8 0) [1, 3])
         (create_model two_slot_data 1 new_scheduler))))) = [ForceZero 1, ForceZero 3]
   \<and> filter (\<lambda>c. c = ForceZero 1 \<or> c = ForceZero 3) (constraints (model (fst (run_steps
         (partial_steps two_slot_data 18 (mk_datetime 739543 8 0))
         (create_model two_slot_data 1 new_scheduler))))) = []"
  by code_simp

text \<open>
  C6. On Monday 2025-10-20 at 10:30, with no preferred date, the slot Monday 10:00 passes
  the past-time constraint as the Monday after, and the extracted suggestion carries
  the date of the same day: 2025-10-20 at 10:00, half an hour before the request.
\<close>

theorem suggestion_in_the_past:
  "solver_status (suggest_optimal_bookings reference_solver (example_db example_plan [monday_10] [])
       (mk_datetime 739543 10 30) 18 1 None 7 []) = Solver_status ''OPTIMAL''
   \<and> map suggestion_datetime (suggested_slots (suggest_optimal_bookings reference_solver
         (example_db example_plan [monday_10] []) (mk_datetime 739543 10 30) 18 1 None 7 []))
       = [mk_datetime 739543 10 0]
   \<and> mk_datetime 739543 10 0 < mk_datetime 739543 10 30
   \<and> current_time_slot_datetime (mk_datetime 739543 10 30) (mk_datetime 739543 10 30) monday_10
       = Inr (mk_datetime 739550 10 0)"
  by code_simp


section \<open>The load-balancing term in floating point\<close>

text \<open>
  Values of \<^verbatim>\<open>round_double\<close> that Python shows with \<^verbatim>\<open>as_integer_ratio()\<close>: 0.1,
  the two ties \<^verbatim>\<open>float(2**53 + 1)\<close> and \<^verbatim>\<open>float(2**53 + 3)\<close>, which go to the even
  significand, 1.2, \<^verbatim>\<open>1.2 - 1.0\<close>, and half of the least subnormal number, which
  underflows to 0.
\<close>

lemma round_double_examples:
  "round_double 1 10 = (3602879701896397, 36028797018963968)
   \<and> float_of_int 9007199254740993 = (9007199254740992, 1)
   \<and> float_of_int 9007199254740995 = (9007199254740996, 1)
   \<and> fdiv (float_of_int 6) (float_of_int 5) = (5404319552844595, 4503599627370496)
   \<and> fsub (5404319552844595, 4503599627370496) (float_of_int 1)
       = (900719925474099, 4503599627370496)
   \<and> round_double 1 (2 ^ 1075) = (0, 1)"
  by code_simp

text \<open>
  Five coaches with 1, 1, 1, 1 and 2 bookings in the window. The average is the
  binary64 value next to 1.2, which lies below it, so the coefficient of a slot of
  coach 7 is \<^verbatim>\<open>int(9.999999999999998)\<close>, that is 9, where exact arithmetic gives 10.
\<close>

lemma load_balance_rounds_down:
  "map_sum id coach_workload
       (gather_scheduling_data five_coach_db (mk_datetime 739543 8 0) 18 None 7)
     = Inr [(7, (1, 1)), (8, (1, 1)), (9, (1, 1)), (10, (1, 1)), (11, (2, 1))]
   \<and> map_sum id load_balance_terms
         (gather_scheduling_data five_coach_db (mk_datetime 739543 8 0) 18 None 7)
       = Inr [(1, 9)]"
  by code_simp


section \<open>What the models of the scheduler hold\<close>

lemma main_run_cases:
  assumes "run_steps (main_steps sd c now ex) s0 = (s, None)"
  obtains s1 s2 s3 s4 s5 s6 s7 where
    "add_capacity_constraints sd s0 = Inr s1"
    "add_recovery_constraints sd c now s1 = Inr s2"
    "add_coach_availability_constraints sd s2 = Inr s3"
    "add_current_time_constraints sd now s3 = Inr s4"
    "add_weekly_quota_constraints sd c s4 = Inr s5"
    "add_excluded_slots_constraints sd ex s5 = Inr s6"
    "add_preference_constraints sd c s6 = Inr s7"
    "define_objective sd c now s7 = Inr s"
  using assms unfolding main_steps_def
  by (auto split: sum.splits)

lemma partial_run_cases:
  assumes "run_steps (partial_steps sd c now) s0 = (s, None)"
  obtains s1 s2 s3 s4 s5 where
    "add_capacity_constraints sd s0 = Inr s1"
    "add_recovery_constraints sd c now s1 = Inr s2"
    "add_coach_availability_constraints sd s2 = Inr s3"
    "add_current_time_constraints sd now s3 = Inr s4"
    "add_preference_constraints sd c s4 = Inr s5"
    "define_objective sd c now s5 = Inr s"
  using assms unfolding partial_steps_def
  by (auto split: sum.splits)

lemma explain_model [simp]: "model (explain msg s) = model s"
  by (simp add: explain_def)

lemma add_constraints_constraints [simp]:
  "constraints (model (add_constraints cs s)) = constraints (model s) @ cs"
  by (simp add: add_constraints_def)

lemma add_constraints_variables [simp]:
  "variables (model (add_constraints cs s)) = variables (model s)"
  by (simp add: add_constraints_def)

lemma capacity_model: "add_capacity_constraints sd s = Inr s' \<Longrightarrow> model s' = model s"
  by (auto simp: add_capacity_constraints_def)

lemma coach_model: "add_coach_availability_constraints sd s = Inr s' \<Longrightarrow> model s' = model s"
  by (auto simp: add_coach_availability_constraints_def)

lemma preference_model: "add_preference_constraints sd c s = Inr s' \<Longrightarrow> model s' = model s"
  by (auto simp: add_preference_constraints_def split: option.splits)

lemma objective_constraints:
  "define_objective sd c now s = Inr s' \<Longrightarrow>
   constraints (model s') = constraints (model s) \<and> variables (model s') = variables (model s)"
  by (auto simp: define_objective_def Let_def split: sum.splits)

lemma recovery_constraints:
  "add_recovery_constraints sd c now s = Inr s' \<Longrightarrow>
   \<exists>cs. collect (booking_recovery_constraints sd now) (existing_bookings sd) = Inr cs
        \<and> constraints (model s') = constraints (model s) @ cs @ pairwise_recovery_constraints sd
        \<and> variables (model s') = variables (model s)"
  by (auto simp: add_recovery_constraints_def split: sum.splits)

lemma current_time_constraints:
  "add_current_time_constraints sd now s = Inr s' \<Longrightarrow>
   \<exists>cs. collect (\<lambda>slot.
             case current_time_slot_datetime (fst (time_window sd)) now slot of
               Inl e \<Rightarrow> Inl e
             | Inr slot_datetime \<Rightarrow>
                 Inr (if slot_datetime \<le> now then [ForceZero (slot_id slot)] else []))
           (available_slots sd) = Inr cs
        \<and> constraints (model s') = constraints (model s) @ cs
        \<and> variables (model s') = variables (model s)"
  by (auto simp: add_current_time_constraints_def split: sum.splits)

lemma weekly_quota_constraints:
  "add_weekly_quota_constraints sd c s = Inr s' \<Longrightarrow>
   set (constraints (model s)) \<subseteq> set (constraints (model s'))
   \<and> variables (model s') = variables (model s)"
  by (auto simp: add_weekly_quota_constraints_def Let_def split: if_splits option.splits)

lemma excluded_constraints:
  "add_excluded_slots_constraints sd ex s = Inr s' \<Longrightarrow>
   constraints (model s') = constraints (model s)
     @ map (\<lambda>slot. ForceZero (slot_id slot))
         (filter (\<lambda>slot. slot_id slot \<in> set ex) (available_slots sd))
   \<and> variables (model s') = variables (model s)"
  by (auto simp: add_excluded_slots_constraints_def Let_def split: if_splits)

lemma collect_member:
  "collect f xs = Inr ys \<Longrightarrow> x \<in> set xs \<Longrightarrow> \<exists>zs. f x = Inr zs \<and> set zs \<subseteq> set ys"
proof (induction xs arbitrary: ys)
  case Nil
  then show ?case by simp
next
  case (Cons a xs)
  from Cons.prems(1) obtain u v where
    u: "f a = Inr u" and v: "collect f xs = Inr v" and ys: "ys = u @ v"
    by (auto split: sum.splits)
  show ?case
  proof (cases "x = a")
    case True
    then show ?thesis using u ys by auto
  next
    case False
    then have "x \<in> set xs" using Cons.prems(2) by simp
    from Cons.IH [OF v this] show ?thesis using ys by auto
  qed
qed

lemma collect_origin:
  "collect f xs = Inr ys \<Longrightarrow> y \<in> set ys \<Longrightarrow> \<exists>x zs. x \<in> set xs \<and> f x = Inr zs \<and> y \<in> set zs"
proof (induction xs arbitrary: ys)
  case Nil
  then show ?case by simp
next
  case (Cons a xs)
  then show ?case by (fastforce split: sum.splits)
qed

text \<open>What the model holds after the steps of the first attempt.\<close>

lemma main_model_excluded:
  assumes "run_steps (main_steps sd c now ex) s0 = (s, None)"
    and "slot \<in> set (available_slots sd)" and "slot_id slot \<in> set ex"
  shows "ForceZero (slot_id slot) \<in> set (constraints (model s))"
proof -
  from assms(1) obtain s5 s6 s7 where
    e: "add_excluded_slots_constraints sd ex s5 = Inr s6"
    and p: "add_preference_constraints sd c s6 = Inr s7"
    and ob: "define_objective sd c now s7 = Inr s"
    by (rule main_run_cases)
  have "ForceZero (slot_id slot) \<in> set (constraints (model s6))"
    using excluded_constraints [OF e] assms(2,3) by auto
  then show ?thesis
    using preference_model [OF p] objective_constraints [OF ob] by simp
qed

lemma steps_current_time:
  assumes "add_current_time_constraints sd now s3 = Inr s4"
    and "slot \<in> set (available_slots sd)"
  shows "\<exists>t. current_time_slot_datetime (fst (time_window sd)) now slot = Inr t
          \<and> (t \<le> now \<longrightarrow> ForceZero (slot_id slot) \<in> set (constraints (model s4)))"
proof -
  from current_time_constraints [OF assms(1)] obtain cs where
    c: "collect (\<lambda>slot.
             case current_time_slot_datetime (fst (time_window sd)) now slot of
               Inl e \<Rightarrow> Inl e
             | Inr slot_datetime \<Rightarrow>
                 Inr (if slot_datetime \<le> now then [ForceZero (slot_id slot)] else []))
           (available_slots sd) = Inr cs"
    and m: "constraints (model s4) = constraints (model s3) @ cs"
    by blast
  from collect_member [OF c assms(2)] show ?thesis
    using m by (auto split: sum.splits if_splits)
qed

lemma steps_recovery:
  assumes "add_recovery_constraints sd c now s1 = Inr s2"
    and "slot \<in> set (available_slots sd)" and "b \<in> set (existing_bookings sd)"
    and "timedelta_days (now - booking_date b) \<le> 7"
  shows "\<exists>t. recovery_slot_datetime (fst (time_window sd)) now slot = Inr t
          \<and> (fst (forbidden_window b) \<le> t \<and> t \<le> snd (forbidden_window b)
               \<longrightarrow> ForceZero (slot_id slot) \<in> set (constraints (model s2)))"
proof -
  from recovery_constraints [OF assms(1)] obtain cs where
    c: "collect (booking_recovery_constraints sd now) (existing_bookings sd) = Inr cs"
    and m: "constraints (model s2) = constraints (model s1) @ cs @ pairwise_recovery_constraints sd"
    by blast
  from collect_member [OF c assms(3)] obtain zs where
    z: "booking_recovery_constraints sd now b = Inr zs" and zs: "set zs \<subseteq> set cs"
    by blast
  from z assms(4) have
    "collect (\<lambda>slot.
             case recovery_slot_datetime (fst (time_window sd)) now slot of
               Inl e \<Rightarrow> Inl e
             | Inr slot_datetime \<Rightarrow>
                 Inr (if fst (forbidden_window b) \<le> slot_datetime
                         \<and> slot_datetime \<le> snd (forbidden_window b)
                      then [ForceZero (slot_id slot)] else []))
           (available_slots sd) = Inr zs"
    by (simp add: booking_recovery_constraints_def Let_def)
  from collect_member [OF this assms(2)] show ?thesis
    using m zs by (auto split: sum.splits if_splits)
qed

section \<open>The reference solver is sound\<close>


lemma fold_pick:
  "fold (\<lambda>x b. if P x b then x else b) cs c \<in> set (c # cs)"
  by (induction cs arbitrary: c) auto

lemma reference_solver_sound: "solver_sound reference_solver"
proof -
  have "sound_response m (reference_solver m)" for m
  proof (cases "filter (feasible m) (subseqs (remdups (variables m)))")
    case Nil
    then show ?thesis
      by (simp add: reference_solver_def sound_response_def has_solution_def)
  next
    case (Cons c cs)
    let ?best = "fold (\<lambda>x b. if objective_of m x > objective_of m b then x else b) cs c"
    have "?best \<in> set (c # cs)" by (rule fold_pick)
    then have "?best \<in> set (filter (feasible m) (subseqs (remdups (variables m))))"
      using Cons by simp
    then have f: "feasible m ?best" by simp
    have v: "value_of (reference_solver m) = assignment ?best"
      using Cons by (auto simp: reference_solver_def value_of_def Let_def)
    have r: "response_value (reference_solver m) i = Inr (assignment ?best i)" for i
      using Cons by (simp add: reference_solver_def Let_def)
    show ?thesis
      using f by (simp add: sound_response_def v r feasible_def assignment_def list_all_iff)
  qed
  then show ?thesis by (simp add: solver_sound_def)
qed

lemma reference_solver_raises: "raises_without_solution reference_solver"
  by (auto simp: raises_without_solution_def reference_solver_def has_solution_def Let_def
           split: list.splits)

lemma extract_origin:
  assumes "extract_suggestions db sd sr resp = Inr xs" and "sg \<in> set xs"
  shows "\<exists>slot \<in> set (available_slots sd).
           response_value resp (slot_id slot) = Inr 1
           \<and> sg_slot_id sg = slot_id slot
           \<and> sg_day_of_week sg = day_of_week slot
           \<and> sg_hour sg = start_hour slot
           \<and> date_suggestion sg = suggestion_date (fst (time_window sd)) slot"
proof -
  let ?f = "\<lambda>slot.
                case response_value resp (slot_id slot) of
                  Inl e \<Rightarrow> Inl e
                | Inr v \<Rightarrow>
                    Inr (if v = 1 then
                      [\<lparr> sg_slot_id = slot_id slot,
                          sg_coach_id = slot_coach_id slot,
                          sg_coach_name =
                            (case coach_full_name db (slot_coach_id slot) of
                               Some name \<Rightarrow> name | None \<Rightarrow> ''Unknown Coach''),
                          sg_day_of_week = day_of_week slot,
                          sg_hour = start_hour slot,
                          date_suggestion = suggestion_date (fst (time_window sd)) slot,
                          sg_confidence_score = sr_confidence sr * 100,
                          capacity_available = capacity slot,
                          optimization_score =
                            (if sr_objective_value sr \<noteq> 0
                             then response_objective resp else 0) \<rparr>]
                      else [])"
  from assms obtain ys where
    c: "collect ?f (available_slots sd) = Inr ys"
    and xs: "xs = take max_suggestions (sort_key (\<lambda>x. (sg_hour x, sg_day_of_week x)) ys)"
    by (auto simp: extract_suggestions_def split: if_splits sum.splits)
  have "sg \<in> set ys"
    using assms(2) xs by (auto dest: in_set_takeD)
  from collect_origin [OF c this] obtain slot zs where
    s: "slot \<in> set (available_slots sd)" and z: "?f slot = Inr zs" and m: "sg \<in> set zs"
    by blast
  from z m have "response_value resp (slot_id slot) = Inr 1
           \<and> sg_slot_id sg = slot_id slot
           \<and> sg_day_of_week sg = day_of_week slot
           \<and> sg_hour sg = start_hour slot
           \<and> date_suggestion sg = suggestion_date (fst (time_window sd)) slot"
    by (auto split: sum.splits if_splits)
  then show ?thesis using s by blast
qed

lemma forced_zero_not_chosen:
  assumes "sound_response m r" and "has_solution (response_status r)"
    and "ForceZero i \<in> set (constraints m)"
  shows "response_value r i \<noteq> Inr 1"
proof -
  from assms have "holds (value_of r) (ForceZero i)"
    by (auto simp: sound_response_def list_all_iff)
  then show ?thesis by (auto simp: value_of_def)
qed

section \<open>Where the suggestions of a result come from\<close>

lemma status_string_solution:
  "(sr_status (solve_model solver m) = ''OPTIMAL'' \<or> sr_status (solve_model solver m) = ''FEASIBLE'')
   = has_solution (response_status (solver m))"
  by (cases "response_status (solver m)")
     (simp_all add: solve_model_def status_map_def has_solution_def)

lemma partial_attempt_some:
  assumes "partial_attempt solver db sd c now n s0 k = (s', Some r)"
  shows "run_steps (partial_steps sd c now)
           (create_model sd k (s0\<lparr>constraint_explanations := []\<rparr>)) = (s', None)
       \<and> has_solution (response_status (solver (model s')))
       \<and> extract_suggestions db sd (solve_model solver (model s')) (solver (model s'))
           = Inr (suggested_slots r)
       \<and> solver_status r = PARTIAL_SOLUTION k
       \<and> total_suggestions r = length (suggested_slots r)
       \<and> confidence_score r
           = sr_confidence (solve_model solver (model s')) * (real_of_int k / real_of_int n)
       \<and> (\<exists>a. constraints_satisfied r = Partial_warning_msg k n a # constraint_explanations s')"
proof -
  obtain s e where run: "run_steps (partial_steps sd c now)
           (create_model sd k (s0\<lparr>constraint_explanations := []\<rparr>)) = (s, e)"
    by (cases "run_steps (partial_steps sd c now)
           (create_model sd k (s0\<lparr>constraint_explanations := []\<rparr>))") auto
  show ?thesis
    using assms run status_string_solution [of solver "model s"]
    by (auto simp: partial_attempt_def Let_def split: option.splits sum.splits if_splits)
qed

lemma partial_attempt_state:
  "partial_attempt solver db sd c now n s0 k = (s', out) \<Longrightarrow>
   fst (run_steps (partial_steps sd c now)
          (create_model sd k (s0\<lparr>constraint_explanations := []\<rparr>))) = s'"
  by (auto simp: partial_attempt_def Let_def split: prod.splits option.splits sum.splits if_splits)

lemma partial_loop_some:
  "partial_loop solver db sd c now n s ks = (s', Some r) \<Longrightarrow>
   \<exists>k \<in> set ks. \<exists>s0. partial_attempt solver db sd c now n s0 k = (s', Some r)"
proof (induction ks arbitrary: s)
  case Nil
  then show ?case by simp
next
  case (Cons k ks)
  then show ?case
    by (auto split: prod.splits option.splits)
qed

lemma try_partial_cases:
  assumes "try_partial_solutions solver db c now sd n s = Inr r"
  shows "(suggested_slots r = [] \<and> solver_status r = NO_SOLUTION_DETAILED)
       \<or> (\<exists>k s0 s'. 1 \<le> k \<and> k < n \<and> partial_attempt solver db sd c now n s0 k = (s', Some r))"
proof (cases "partial_loop solver db sd c now n s (rev [1 .. n - 1])")
  case (Pair s' out)
  show ?thesis
  proof (cases out)
    case None
    then show ?thesis
      using assms Pair
      by (auto simp: try_partial_solutions_def dest: create_detailed_failure_analysis_empty)
  next
    case (Some r')
    then have "r' = r"
      using assms Pair by (simp add: try_partial_solutions_def)
    then show ?thesis
      using partial_loop_some [of solver db sd c now n s "rev [1 .. n - 1]" s' r] Pair Some
      by auto
  qed
qed

text \<open>Where a suggestion of a result comes from.\<close>

lemma solve_with_data_cases:
  assumes "solve_with_data solver db now c sd n ex = Inr r"
  shows "(suggested_slots r = [] \<and> solver_status r = NO_SOLUTION_DETAILED)
       \<or> (\<exists>k s0 s'. 1 \<le> k \<and> k < n \<and> partial_attempt solver db sd c now n s0 k = (s', Some r))
       \<or> (\<exists>s0 s. run_steps (main_steps sd c now ex) (create_model sd n s0) = (s, None)
             \<and> extract_suggestions db sd (solve_model solver (model s)) (solver (model s))
                 = Inr (suggested_slots r)
             \<and> solver_status r = Solver_status (sr_status (solve_model solver (model s))))"
proof -
  from assms obtain ws where ws: "generate_week_status_message c sd = Inr ws"
    by (cases "generate_week_status_message c sd") (auto simp: solve_with_data_def)
  let ?s0 = "new_scheduler\<lparr>constraint_explanations := [Week_status_msg ws]\<rparr>"
  obtain s e where run: "run_steps (main_steps sd c now ex) (create_model sd n ?s0) = (s, e)"
    by (cases "run_steps (main_steps sd c now ex) (create_model sd n ?s0)") auto
  show ?thesis
  proof (cases "sr_status (solve_model solver (model s)) = ''NO_SOLUTION''")
    case True
    then have "try_partial_solutions solver db c now sd n s = Inr r"
      using assms run ws by (auto simp: solve_with_data_def Let_def split: option.splits)
    from try_partial_cases [OF this] show ?thesis by blast
  next
    case False
    then have "e = None
        \<and> extract_suggestions db sd (solve_model solver (model s)) (solver (model s))
                 = Inr (suggested_slots r)
        \<and> solver_status r = Solver_status (sr_status (solve_model solver (model s)))"
      using assms run ws
      by (auto simp: solve_with_data_def Let_def split: option.splits sum.splits)
    then show ?thesis using run by blast
  qed
qed

lemma suggest_cases:
  assumes "gather_scheduling_data db now c pd df = Inr sd"
    and "sg \<in> set (suggested_slots (suggest_optimal_bookings solver db now c n pd df ex))"
  shows "\<exists>n'. solve_with_data solver db now c sd n' ex
           = Inr (suggest_optimal_bookings solver db now c n pd df ex)"
  using assms
  by (auto simp: suggest_optimal_bookings_def suggest_body_def Let_def
        create_no_availability_result_def create_error_result_def
      split: if_splits sum.splits option.splits
      dest: create_quota_exceeded_result_empty)

lemma partial_model_forced:
  assumes "run_steps (partial_steps sd c now) s0 = (s, None)"
    and "slot \<in> set (available_slots sd)"
  shows "\<exists>t. current_time_slot_datetime (fst (time_window sd)) now slot = Inr t
          \<and> (t \<le> now \<longrightarrow> ForceZero (slot_id slot) \<in> set (constraints (model s)))"
    and "b \<in> set (existing_bookings sd) \<Longrightarrow> timedelta_days (now - booking_date b) \<le> 7 \<Longrightarrow>
         \<exists>t. recovery_slot_datetime (fst (time_window sd)) now slot = Inr t
          \<and> (fst (forbidden_window b) \<le> t \<and> t \<le> snd (forbidden_window b)
               \<longrightarrow> ForceZero (slot_id slot) \<in> set (constraints (model s)))"
proof -
  from assms(1) obtain s1 s2 s3 s4 s5 where
    st: "add_capacity_constraints sd s0 = Inr s1"
      "add_recovery_constraints sd c now s1 = Inr s2"
      "add_coach_availability_constraints sd s2 = Inr s3"
      "add_current_time_constraints sd now s3 = Inr s4"
      "add_preference_constraints sd c s4 = Inr s5"
      "define_objective sd c now s5 = Inr s"
    by (rule partial_run_cases)
  have late: "constraints (model s) = constraints (model s4)"
    using preference_model [OF st(5)] objective_constraints [OF st(6)] by simp
  have early: "set (constraints (model s2)) \<subseteq> set (constraints (model s4))"
    using coach_model [OF st(3)] current_time_constraints [OF st(4)] by auto
  show "\<exists>t. current_time_slot_datetime (fst (time_window sd)) now slot = Inr t
          \<and> (t \<le> now \<longrightarrow> ForceZero (slot_id slot) \<in> set (constraints (model s)))"
    using steps_current_time [OF st(4) assms(2)] late by simp
  show "\<exists>t. recovery_slot_datetime (fst (time_window sd)) now slot = Inr t
          \<and> (fst (forbidden_window b) \<le> t \<and> t \<le> snd (forbidden_window b)
               \<longrightarrow> ForceZero (slot_id slot) \<in> set (constraints (model s)))"
    if "b \<in> set (existing_bookings sd)" and "timedelta_days (now - booking_date b) \<le> 7"
    using steps_recovery [OF st(2) assms(2) that] late early by auto
qed

lemma main_model_forced:
  assumes "run_steps (main_steps sd c now ex) s0 = (s, None)"
    and "slot \<in> set (available_slots sd)"
  shows "\<exists>t. current_time_slot_datetime (fst (time_window sd)) now slot = Inr t
          \<and> (t \<le> now \<longrightarrow> ForceZero (slot_id slot) \<in> set (constraints (model s)))"
    and "b \<in> set (existing_bookings sd) \<Longrightarrow> timedelta_days (now - booking_date b) \<le> 7 \<Longrightarrow>
         \<exists>t. recovery_slot_datetime (fst (time_window sd)) now slot = Inr t
          \<and> (fst (forbidden_window b) \<le> t \<and> t \<le> snd (forbidden_window b)
               \<longrightarrow> ForceZero (slot_id slot) \<in> set (constraints (model s)))"
proof -
  from assms(1) obtain s1 s2 s3 s4 s5 s6 s7 where
    st: "add_capacity_constraints sd s0 = Inr s1"
      "add_recovery_constraints sd c now s1 = Inr s2"
      "add_coach_availability_constraints sd s2 = Inr s3"
      "add_current_time_constraints sd now s3 = Inr s4"
      "add_weekly_quota_constraints sd c s4 = Inr s5"
      "add_excluded_slots_constraints sd ex s5 = Inr s6"
      "add_preference_constraints sd c s6 = Inr s7"
      "define_objective sd c now s7 = Inr s"
    by (rule main_run_cases)
  have late: "set (constraints (model s4)) \<subseteq> set (constraints (model s))"
    using weekly_quota_constraints [OF st(5)] excluded_constraints [OF st(6)]
      preference_model [OF st(7)] objective_constraints [OF st(8)] by auto
  have early: "set (constraints (model s2)) \<subseteq> set (constraints (model s4))"
    using coach_model [OF st(3)] current_time_constraints [OF st(4)] by auto
  show "\<exists>t. current_time_slot_datetime (fst (time_window sd)) now slot = Inr t
          \<and> (t \<le> now \<longrightarrow> ForceZero (slot_id slot) \<in> set (constraints (model s)))"
    using steps_current_time [OF st(4) assms(2)] late by auto
  show "\<exists>t. recovery_slot_datetime (fst (time_window sd)) now slot = Inr t
          \<and> (fst (forbidden_window b) \<le> t \<and> t \<le> snd (forbidden_window b)
               \<longrightarrow> ForceZero (slot_id slot) \<in> set (constraints (model s)))"
    if "b \<in> set (existing_bookings sd)" and "timedelta_days (now - booking_date b) \<le> 7"
    using steps_recovery [OF st(2) assms(2) that] late early by auto
qed

text \<open>
  A slot the solver reads 1 for is not forced to 0 in the model, for a solver that is
  sound and raises when it holds no solution.
\<close>

lemma chosen_not_forced:
  assumes "solver_sound solver" and "raises_without_solution solver"
    and "response_value (solver m) i = Inr 1"
  shows "ForceZero i \<notin> set (constraints m)"
proof
  assume f: "ForceZero i \<in> set (constraints m)"
  have h: "has_solution (response_status (solver m))"
  proof (rule ccontr)
    assume "\<not> has_solution (response_status (solver m))"
    then have "isl (response_value (solver m) i)"
      using assms(2) by (auto simp: raises_without_solution_def)
    then show False using assms(3) by simp
  qed
  have "sound_response m (solver m)"
    using assms(1) by (simp add: solver_sound_def)
  from forced_zero_not_chosen [OF this h f] assms(3) show False by simp
qed


theorem suggested_slot_guarantees:
  assumes "solver_sound solver" and "raises_without_solution solver"
    and "gather_scheduling_data db now c pd df = Inr sd"
    and "sg \<in> set (suggested_slots (suggest_optimal_bookings solver db now c n pd df ex))"
  shows "\<exists>slot. slot_of sd sg slot
      \<and> (\<exists>t. current_time_slot_datetime (fst (time_window sd)) now slot = Inr t \<and> now < t)
      \<and> (\<forall>b \<in> set (existing_bookings sd). timedelta_days (now - booking_date b) \<le> 7 \<longrightarrow>
            (\<exists>t. recovery_slot_datetime (fst (time_window sd)) now slot = Inr t
               \<and> (t < booking_date b - timedelta 0 min_recovery_hours
                    \<or> booking_date b + timedelta 0 1 + timedelta 0 min_recovery_hours < t)))
      \<and> ((\<forall>k. solver_status (suggest_optimal_bookings solver db now c n pd df ex)
                 \<noteq> PARTIAL_SOLUTION k)
           \<longrightarrow> slot_id slot \<notin> set ex)"
proof -
  let ?r = "suggest_optimal_bookings solver db now c n pd df ex"
  from suggest_cases [OF assms(3,4)] obtain n' where
    sw: "solve_with_data solver db now c sd n' ex = Inr ?r" by blast
  have ne: "suggested_slots ?r \<noteq> []" using assms(4) by auto
  from solve_with_data_cases [OF sw] ne consider
    (partial) k s0 s' where "partial_attempt solver db sd c now n' s0 k = (s', Some ?r)"
  | (main) s0 s where "run_steps (main_steps sd c now ex) (create_model sd n' s0) = (s, None)"
      "extract_suggestions db sd (solve_model solver (model s)) (solver (model s))
         = Inr (suggested_slots ?r)"
      "solver_status ?r = Solver_status (sr_status (solve_model solver (model s)))"
    by blast
  then show ?thesis
  proof cases
    case partial
    from partial_attempt_some [OF partial] have
      run: "run_steps (partial_steps sd c now)
              (create_model sd k (s0\<lparr>constraint_explanations := []\<rparr>)) = (s', None)"
      and ext: "extract_suggestions db sd (solve_model solver (model s')) (solver (model s'))
                  = Inr (suggested_slots ?r)"
      and st: "solver_status ?r = PARTIAL_SOLUTION k"
      by simp_all
    from extract_origin [OF ext assms(4)] obtain slot where
      slot: "slot \<in> set (available_slots sd)"
      and one: "response_value (solver (model s')) (slot_id slot) = Inr 1"
      and so: "slot_of sd sg slot"
      by (auto simp: slot_of_def)
    have nf: "ForceZero (slot_id slot) \<notin> set (constraints (model s'))"
      by (rule chosen_not_forced [OF assms(1,2) one])
    have a: "\<exists>t. current_time_slot_datetime (fst (time_window sd)) now slot = Inr t \<and> now < t"
      using partial_model_forced(1) [OF run slot] nf by (auto simp: not_le)
    have b: "\<exists>t. recovery_slot_datetime (fst (time_window sd)) now slot = Inr t
               \<and> (t < booking_date b - timedelta 0 min_recovery_hours
                    \<or> booking_date b + timedelta 0 1 + timedelta 0 min_recovery_hours < t)"
      if "b \<in> set (existing_bookings sd)" and "timedelta_days (now - booking_date b) \<le> 7" for b
      using partial_model_forced(2) [OF run slot that] nf
      by (auto simp: forbidden_window_def Let_def not_le)
    show ?thesis using so a b st by blast
  next
    case main
    from extract_origin [OF main(2) assms(4)] obtain slot where
      slot: "slot \<in> set (available_slots sd)"
      and one: "response_value (solver (model s)) (slot_id slot) = Inr 1"
      and so: "slot_of sd sg slot"
      by (auto simp: slot_of_def)
    have nf: "ForceZero (slot_id slot) \<notin> set (constraints (model s))"
      by (rule chosen_not_forced [OF assms(1,2) one])
    have a: "\<exists>t. current_time_slot_datetime (fst (time_window sd)) now slot = Inr t \<and> now < t"
      using main_model_forced(1) [OF main(1) slot] nf by (auto simp: not_le)
    have b: "\<exists>t. recovery_slot_datetime (fst (time_window sd)) now slot = Inr t
               \<and> (t < booking_date b - timedelta 0 min_recovery_hours
                    \<or> booking_date b + timedelta 0 1 + timedelta 0 min_recovery_hours < t)"
      if "b \<in> set (existing_bookings sd)" and "timedelta_days (now - booking_date b) \<le> 7" for b
      using main_model_forced(2) [OF main(1) slot that] nf
      by (auto simp: forbidden_window_def Let_def not_le)
    have e: "slot_id slot \<notin> set ex"
      using main_model_excluded [OF main(1) slot] nf by blast
    show ?thesis using so a b e by blast
  qed
qed

section \<open>Replacing one suggestion\<close>

lemma suggest_result_cases:
  "(\<exists>e. suggest_optimal_bookings solver db now c n pd df ex = create_error_result c e)
   \<or> suggest_optimal_bookings solver db now c n pd df ex = create_no_availability_result c
   \<or> (\<exists>wl cur. create_quota_exceeded_result db now c wl cur
                   = Inr (suggest_optimal_bookings solver db now c n pd df ex))
   \<or> (\<exists>sd n'. gather_scheduling_data db now c pd df = Inr sd \<and> n' \<le> n
         \<and> solve_with_data solver db now c sd n' ex
             = Inr (suggest_optimal_bookings solver db now c n pd df ex))"
proof (cases "suggest_body solver db now c n pd df ex")
  case (Inl e)
  then show ?thesis by (auto simp: suggest_optimal_bookings_def)
next
  case (Inr r)
  then have r: "suggest_optimal_bookings solver db now c n pd df ex = r"
    by (simp add: suggest_optimal_bookings_def)
  from Inr show ?thesis
    unfolding r
    by (auto simp: suggest_body_def Let_def split: sum.splits if_splits option.splits)
qed

lemma partial_status_range:
  assumes "solver_status (suggest_optimal_bookings solver db now c n pd df ex) = PARTIAL_SOLUTION k"
  shows "1 \<le> k \<and> k < n"
proof -
  let ?r = "suggest_optimal_bookings solver db now c n pd df ex"
  from suggest_result_cases [of solver db now c n pd df ex] assms
  obtain sd n' where n': "n' \<le> n"
    and sw: "solve_with_data solver db now c sd n' ex = Inr ?r"
    by (auto simp: create_error_result_def create_no_availability_result_def
          dest: create_quota_exceeded_result_empty)
  from solve_with_data_cases [OF sw] assms obtain k' s0 s' where
    k': "1 \<le> k'" "k' < n'" and pa: "partial_attempt solver db sd c now n' s0 k' = (s', Some ?r)"
    by auto
  from partial_attempt_some [OF pa] assms have "k' = k" by simp
  then show ?thesis using k' n' by simp
qed

theorem replace_one_never_repeats:
  assumes "solver_sound solver" and "raises_without_solution solver"
    and "re_suggest_individual_slot solver db now utcnow current_user_id (Some session)
           replaced_slot_id = Inr (new_suggestion, session')"
  shows "sg_slot_id new_suggestion \<noteq> replaced_slot_id
       \<and> sg_slot_id new_suggestion \<notin> set (get_all_suggested_slots session)"
proof -
  let ?history = "get_all_suggested_slots session"
  let ?ex = "if replaced_slot_id \<notin> set ?history then ?history @ [replaced_slot_id] else ?history"
  let ?pd = "map_option combine_min (ss_preferred_date session)"
  let ?r = "suggest_optimal_bookings solver db now (ss_client_id session) 1 ?pd
              (ss_days_flexibility session) ?ex"
  from assms(3) have first: "new_suggestion \<in> set (suggested_slots ?r)"
    by (auto simp: re_suggest_individual_slot_def Let_def
             split: if_splits option.splits list.splits)
  have no_partial: "solver_status ?r \<noteq> PARTIAL_SOLUTION k" for k
    using partial_status_range [of solver db now "ss_client_id session" 1 ?pd
        "ss_days_flexibility session" ?ex k] by auto
  from suggest_result_cases [of solver db now "ss_client_id session" 1 ?pd
      "ss_days_flexibility session" ?ex] first
  obtain sd where g: "gather_scheduling_data db now (ss_client_id session) ?pd
                        (ss_days_flexibility session) = Inr sd"
    by (auto simp: create_error_result_def create_no_availability_result_def
          dest: create_quota_exceeded_result_empty)
  from suggested_slot_guarantees [OF assms(1,2) g first] no_partial
  obtain slot where "slot_of sd new_suggestion slot" and "slot_id slot \<notin> set ?ex"
    by blast
  then have "sg_slot_id new_suggestion \<notin> set ?ex"
    by (simp add: slot_of_def)
  then show ?thesis by (auto split: if_splits)
qed



lemma resolution_of_constraints:
  assumes "0 \<le> start_hour slot" and "start_hour slot \<le> 23"
  shows "recovery_slot_datetime start_date current_time slot
           = Inr (next_occurrence start_date current_time slot)"
    and "current_time_slot_datetime start_date current_time slot
           = Inr (next_occurrence start_date current_time slot)"
  using assms
  by (auto simp: recovery_slot_datetime_def current_time_slot_datetime_def next_occurrence_def
        replace_hour_def Let_def combine_min_def timedelta_def algebra_simps)

section \<open>The outcome of the retry loop\<close>




lemma collect_total:
  "(\<And>x. x \<in> set xs \<Longrightarrow> \<exists>ys. f x = Inr ys) \<Longrightarrow> \<exists>zs. collect f xs = Inr zs"
proof (induction xs)
  case Nil
  then show ?case by simp
next
  case (Cons a xs)
  from Cons.prems [of a] obtain ys where a: "f a = Inr ys" by auto
  from Cons.IH Cons.prems obtain zs where "collect f xs = Inr zs" by auto
  then show ?case using a by simp
qed

lemma classify_hour_total:
  "\<exists>cl. classify_hour ps (Some pe) h = Inr cl"
  by (cases "ps \<le> h"; cases "h = ps - 1") (auto simp: classify_hour_def)

lemma chained_between_total:
  "\<exists>b. chained_between lo h (Some pe) d = Inr b"
  by (cases "lo \<le> h") (auto simp: chained_between_def)

lemma recovery_slot_datetime_total:
  "0 \<le> start_hour slot \<Longrightarrow> start_hour slot \<le> 23 \<Longrightarrow>
   \<exists>t. recovery_slot_datetime sdate now slot = Inr t"
  by (simp add: recovery_slot_datetime_def replace_hour_def Let_def)

lemma current_time_slot_datetime_total:
  "0 \<le> start_hour slot \<Longrightarrow> start_hour slot \<le> 23 \<Longrightarrow>
   \<exists>t. current_time_slot_datetime sdate now slot = Inr t"
  by (simp add: current_time_slot_datetime_def replace_hour_def Let_def)

lemma objective_slot_date_total:
  "0 \<le> start_hour slot \<Longrightarrow> start_hour slot \<le> 23 \<Longrightarrow>
   \<exists>t. objective_slot_date sdate now slot = Inr t"
  by (simp add: objective_slot_date_def replace_hour_def Let_def)

lemma add_recovery_total:
  assumes "hours_valid sd"
  shows "\<exists>s'. add_recovery_constraints sd c now s = Inr s'"
proof -
  have "\<exists>ys. booking_recovery_constraints sd now b = Inr ys" for b
  proof (cases "timedelta_days (now - booking_date b) > 7")
    case True
    then show ?thesis by (simp add: booking_recovery_constraints_def)
  next
    case False
    have "\<exists>zs. collect (\<lambda>slot.
             case recovery_slot_datetime (fst (time_window sd)) now slot of
               Inl e \<Rightarrow> Inl e
             | Inr slot_datetime \<Rightarrow>
                 Inr (if fst (forbidden_window b) \<le> slot_datetime
                         \<and> slot_datetime \<le> snd (forbidden_window b)
                      then [ForceZero (slot_id slot)] else []))
           (available_slots sd) = Inr zs"
    proof (rule collect_total)
      fix slot assume "slot \<in> set (available_slots sd)"
      then have "0 \<le> start_hour slot \<and> start_hour slot \<le> 23"
        using assms by (auto simp: hours_valid_def list_all_iff)
      then obtain t where "recovery_slot_datetime (fst (time_window sd)) now slot = Inr t"
        using recovery_slot_datetime_total by blast
      then show "\<exists>ys. (case recovery_slot_datetime (fst (time_window sd)) now slot of
               Inl e \<Rightarrow> Inl e
             | Inr slot_datetime \<Rightarrow>
                 Inr (if fst (forbidden_window b) \<le> slot_datetime
                         \<and> slot_datetime \<le> snd (forbidden_window b)
                      then [ForceZero (slot_id slot)] else [])) = Inr ys"
        by simp
    qed
    then show ?thesis using False by (simp add: booking_recovery_constraints_def Let_def)
  qed
  then obtain cs where
    "collect (booking_recovery_constraints sd now) (existing_bookings sd) = Inr cs"
    using collect_total [of "existing_bookings sd" "booking_recovery_constraints sd now"] by blast
  then show ?thesis by (simp add: add_recovery_constraints_def)
qed

lemma add_current_time_total:
  assumes "hours_valid sd"
  shows "\<exists>s'. add_current_time_constraints sd now s = Inr s'"
proof -
  have "\<exists>zs. collect (\<lambda>slot.
             case current_time_slot_datetime (fst (time_window sd)) now slot of
               Inl e \<Rightarrow> Inl e
             | Inr slot_datetime \<Rightarrow>
                 Inr (if slot_datetime \<le> now then [ForceZero (slot_id slot)] else []))
           (available_slots sd) = Inr zs"
  proof (rule collect_total)
    fix slot assume "slot \<in> set (available_slots sd)"
    then have "0 \<le> start_hour slot \<and> start_hour slot \<le> 23"
      using assms by (auto simp: hours_valid_def list_all_iff)
    then obtain t where "current_time_slot_datetime (fst (time_window sd)) now slot = Inr t"
      using current_time_slot_datetime_total by blast
    then show "\<exists>ys. (case current_time_slot_datetime (fst (time_window sd)) now slot of
               Inl e \<Rightarrow> Inl e
             | Inr slot_datetime \<Rightarrow>
                 Inr (if slot_datetime \<le> now then [ForceZero (slot_id slot)] else [])) = Inr ys"
      by simp
  qed
  then show ?thesis by (auto simp: add_current_time_constraints_def)
qed

lemma preference_terms_total:
  assumes "preference_complete sd"
  shows "\<exists>ts. preference_terms sd = Inr ts"
proof (cases "sd_client_preference sd")
  case None
  then show ?thesis by (simp add: preference_terms_def)
next
  case (Some pref)
  show ?thesis
  proof (cases "preferred_start_hour pref")
    case None
    then show ?thesis using Some by (simp add: preference_terms_def)
  next
    case (Some ps)
    then obtain pe where pe: "preferred_end_hour pref = Some pe"
      using assms \<open>sd_client_preference sd = Some pref\<close>
      by (auto simp: preference_complete_def)
    have "\<exists>zs. collect (\<lambda>slot.
                  case classify_hour ps (Some pe) (start_hour slot) of
                    Inl e \<Rightarrow> Inl e
                  | Inr Perfect \<Rightarrow> Inr [(slot_id slot, preference_match_weight * 100)]
                  | Inr Close \<Rightarrow> Inr [(slot_id slot, preference_match_weight * 50)]
                  | Inr Outside \<Rightarrow> Inr [])
                (available_slots sd) = Inr zs"
    proof (rule collect_total)
      fix slot
      obtain cl where "classify_hour ps (Some pe) (start_hour slot) = Inr cl"
        using classify_hour_total by blast
      then show "\<exists>ys. (case classify_hour ps (Some pe) (start_hour slot) of
                    Inl e \<Rightarrow> Inl e
                  | Inr Perfect \<Rightarrow> Inr [(slot_id slot, preference_match_weight * 100)]
                  | Inr Close \<Rightarrow> Inr [(slot_id slot, preference_match_weight * 50)]
                  | Inr Outside \<Rightarrow> Inr []) = Inr ys"
        by (cases cl) simp_all
    qed
    then show ?thesis
      using Some pe \<open>sd_client_preference sd = Some pref\<close>
      by (simp add: preference_terms_def)
  qed
qed

lemma date_terms_total:
  assumes "hours_valid sd"
  shows "\<exists>ts. date_terms sd now = Inr ts"
proof -
  have "\<exists>zs. collect (\<lambda>slot.
         case objective_slot_date (fst (time_window sd)) now slot of
           Inl e \<Rightarrow> Inl e
         | Inr slot_date \<Rightarrow>
             (let days_from_start = slot_date - date_of (fst (time_window sd));
                  date_score = max 0 (7 - days_from_start) * 20
              in Inr [(slot_id slot, date_score)]))
       (available_slots sd) = Inr zs"
  proof (rule collect_total)
    fix slot assume "slot \<in> set (available_slots sd)"
    then have "0 \<le> start_hour slot \<and> start_hour slot \<le> 23"
      using assms by (auto simp: hours_valid_def list_all_iff)
    then obtain t where "objective_slot_date (fst (time_window sd)) now slot = Inr t"
      using objective_slot_date_total by blast
    then show "\<exists>ys. (case objective_slot_date (fst (time_window sd)) now slot of
           Inl e \<Rightarrow> Inl e
         | Inr slot_date \<Rightarrow>
             (let days_from_start = slot_date - date_of (fst (time_window sd));
                  date_score = max 0 (7 - days_from_start) * 20
              in Inr [(slot_id slot, date_score)])) = Inr ys"
      by (simp add: Let_def)
  qed
  then show ?thesis by (simp add: date_terms_def Let_def)
qed

lemma define_objective_total:
  assumes "hours_valid sd" and "preference_complete sd"
  shows "\<exists>s'. define_objective sd c now s = Inr s'"
  using preference_terms_total [OF assms(2)] date_terms_total [OF assms(1), of now]
  by (auto simp: define_objective_def Let_def)

lemma partial_steps_total:
  assumes "hours_valid sd" and "preference_complete sd"
  shows "\<exists>s'. run_steps (partial_steps sd c now) s = (s', None)"
proof -
  obtain s1 where s1: "add_capacity_constraints sd s = Inr s1"
    by (simp add: add_capacity_constraints_def)
  obtain s2 where s2: "add_recovery_constraints sd c now s1 = Inr s2"
    using add_recovery_total [OF assms(1)] by blast
  obtain s3 where s3: "add_coach_availability_constraints sd s2 = Inr s3"
    by (simp add: add_coach_availability_constraints_def)
  obtain s4 where s4: "add_current_time_constraints sd now s3 = Inr s4"
    using add_current_time_total [OF assms(1)] by blast
  obtain s5 where s5: "add_preference_constraints sd c s4 = Inr s5"
    by (cases "sd_client_preference sd") (simp_all add: add_preference_constraints_def)
  obtain s6 where s6: "define_objective sd c now s5 = Inr s6"
    using define_objective_total [OF assms] by blast
  show ?thesis
    using s1 s2 s3 s4 s5 s6 by (simp add: partial_steps_def)
qed

lemma create_model_reset:
  "create_model sd k (s0\<lparr>constraint_explanations := []\<rparr>) = create_model sd k new_scheduler"
  by (cases s0) (simp add: create_model_def new_scheduler_def)

lemma partial_steps_variables:
  assumes "run_steps (partial_steps sd c now) (create_model sd k s0) = (s, None)"
  shows "variables (model s) = map slot_id (available_slots sd)"
proof -
  from assms obtain s1 s2 s3 s4 s5 where
    st: "add_capacity_constraints sd (create_model sd k s0) = Inr s1"
      "add_recovery_constraints sd c now s1 = Inr s2"
      "add_coach_availability_constraints sd s2 = Inr s3"
      "add_current_time_constraints sd now s3 = Inr s4"
      "add_preference_constraints sd c s4 = Inr s5"
      "define_objective sd c now s5 = Inr s"
    by (rule partial_run_cases)
  have "variables (model (create_model sd k s0)) = map slot_id (available_slots sd)"
    by (simp add: create_model_def)
  then show ?thesis
    using capacity_model [OF st(1)] recovery_constraints [OF st(2)] coach_model [OF st(3)]
      current_time_constraints [OF st(4)] preference_model [OF st(5)]
      objective_constraints [OF st(6)]
    by auto
qed

lemma extract_total:
  assumes "sound_response m r" and "has_solution (response_status r)"
    and "variables m = map slot_id (available_slots sd)"
  shows "\<exists>xs. extract_suggestions db sd sr r = Inr xs"
proof -
  let ?f = "\<lambda>slot.
                case response_value r (slot_id slot) of
                  Inl e \<Rightarrow> Inl e
                | Inr v \<Rightarrow>
                    Inr (if v = 1 then
                      [\<lparr> sg_slot_id = slot_id slot,
                          sg_coach_id = slot_coach_id slot,
                          sg_coach_name =
                            (case coach_full_name db (slot_coach_id slot) of
                               Some name \<Rightarrow> name | None \<Rightarrow> ''Unknown Coach''),
                          sg_day_of_week = day_of_week slot,
                          sg_hour = start_hour slot,
                          date_suggestion = suggestion_date (fst (time_window sd)) slot,
                          sg_confidence_score = sr_confidence sr * 100,
                          capacity_available = capacity slot,
                          optimization_score =
                            (if sr_objective_value sr \<noteq> 0
                             then response_objective r else 0) \<rparr>]
                      else [])"
  have "\<exists>zs. collect ?f (available_slots sd) = Inr zs"
  proof (rule collect_total)
    fix slot assume "slot \<in> set (available_slots sd)"
    then have "slot_id slot \<in> set (variables m)"
      using assms(3) by simp
    then have "response_value r (slot_id slot) = Inr 0 \<or> response_value r (slot_id slot) = Inr 1"
      using assms(1,2) by (auto simp: sound_response_def list_all_iff)
    then show "\<exists>ys. ?f slot = Inr ys" by auto
  qed
  then obtain zs where z: "collect ?f (available_slots sd) = Inr zs" by blast
  show ?thesis unfolding extract_suggestions_def z by auto
qed

lemma analyze_total:
  assumes "preference_complete sd"
  shows "\<exists>a. analyze_constraint_failures sd requested found = Inr a"
proof (cases "sd_client_preference sd")
  case None
  then show ?thesis by (simp add: analyze_constraint_failures_def Let_def)
next
  case (Some pref)
  show ?thesis
  proof (cases "preferred_start_hour pref")
    case None
    then show ?thesis using Some by (simp add: analyze_constraint_failures_def Let_def)
  next
    case (Some ps)
    then obtain pe where pe: "preferred_end_hour pref = Some pe"
      using assms \<open>sd_client_preference sd = Some pref\<close>
      by (auto simp: preference_complete_def)
    let ?f = "\<lambda>slot.
                case (if is_flexible pref
                      then chained_between (ps - 1) (start_hour slot) (preferred_end_hour pref) 1
                      else chained_between ps (start_hour slot) (preferred_end_hour pref) 0) of
                  Inl e \<Rightarrow> Inl e
                | Inr hit \<Rightarrow> Inr (if hit then [slot] else [])"
    have "\<exists>zs. collect ?f (available_slots sd) = Inr zs"
    proof (rule collect_total)
      fix slot
      show "\<exists>ys. ?f slot = Inr ys"
        using chained_between_total [of "ps - 1" "start_hour slot" pe 1]
          chained_between_total [of ps "start_hour slot" pe 0] pe
        by auto
    qed
    then show ?thesis
      using Some \<open>sd_client_preference sd = Some pref\<close>
      by (auto simp: analyze_constraint_failures_def Let_def)
  qed
qed

lemma generate_reasons_total:
  assumes "preference_complete sd"
  shows "\<exists>rs. generate_reasons suggestions sd c = Inr rs"
proof (cases "suggestions = []")
  case True
  then show ?thesis by (simp add: generate_reasons_def)
next
  case False
  let ?f = "\<lambda>sg.
                case (case sd_client_preference sd of
                        None \<Rightarrow> Inr []
                      | Some pref \<Rightarrow>
                          (case preferred_start_hour pref of
                             None \<Rightarrow> Inr []
                           | Some pref_start \<Rightarrow>
                               (case classify_hour pref_start (preferred_end_hour pref) (sg_hour sg) of
                                  Inl e \<Rightarrow> Inl e
                                | Inr Perfect \<Rightarrow> Inr [PERFECT_PREFERENCE_MATCH]
                                | Inr Close \<Rightarrow> Inr [GOOD_PREFERENCE_MATCH]
                                | Inr Outside \<Rightarrow> Inr []))) of
                  Inl e \<Rightarrow> Inl e
                | Inr rs \<Rightarrow> Inr (rs @ [COACH_AVAILABILITY, CAPACITY_AVAILABLE])"
  have "\<exists>zs. collect ?f suggestions = Inr zs"
  proof (rule collect_total)
    fix sg
    show "\<exists>ys. ?f sg = Inr ys"
    proof (cases "sd_client_preference sd")
      case None
      then show ?thesis by simp
    next
      case (Some pref)
      show ?thesis
      proof (cases "preferred_start_hour pref")
        case None
        then show ?thesis using Some by simp
      next
        case (Some ps)
        then obtain pe where pe: "preferred_end_hour pref = Some pe"
          using assms \<open>sd_client_preference sd = Some pref\<close>
          by (auto simp: preference_complete_def)
        obtain cl where "classify_hour ps (Some pe) (sg_hour sg) = Inr cl"
          using classify_hour_total by blast
        then show ?thesis
          using Some pe \<open>sd_client_preference sd = Some pref\<close>
          by (cases cl) simp_all
      qed
    qed
  qed
  then show ?thesis using False by (auto simp: generate_reasons_def)
qed

lemma preference_items_total:
  assumes "preference_complete sd"
  shows "\<exists>items. preference_items sd n = Inr items"
  using assms
  by (auto simp: preference_items_def preference_complete_def Let_def
           split: option.splits list.splits)

lemma failure_analysis_total:
  assumes "preference_complete sd" and "weekly_limit_set sd"
  shows "\<exists>r. create_detailed_failure_analysis c sd n expl = Inr r
           \<and> solver_status r = NO_SOLUTION_DETAILED \<and> suggested_slots r = []
           \<and> total_suggestions r = 0 \<and> confidence_score r = 0"
  using preference_items_total [OF assms(1), of n] assms(2)
  by (auto simp: create_detailed_failure_analysis_def generate_week_status_message_def
        weekly_limit_of_def weekly_limit_set_def Let_def)

text \<open>An attempt of the retry loop succeeds exactly when the solver finds a solution.\<close>

lemma partial_attempt_outcome:
  assumes "solver_sound solver" and "hours_valid sd" and "preference_complete sd"
  shows "if has_solution (response_status (solver (partial_model sd c now k)))
         then \<exists>s' r. partial_attempt solver db sd c now n s0 k = (s', Some r)
                \<and> solver_status r = PARTIAL_SOLUTION k
                \<and> total_suggestions r = length (suggested_slots r)
                \<and> confidence_score r
                    = sr_confidence (solve_model solver (partial_model sd c now k))
                      * (real_of_int k / real_of_int n)
                \<and> (\<exists>a rest. constraints_satisfied r = Partial_warning_msg k n a # rest)
         else \<exists>s'. partial_attempt solver db sd c now n s0 k = (s', None)"
proof -
  obtain s' where run: "run_steps (partial_steps sd c now) (create_model sd k new_scheduler)
                          = (s', None)"
    using partial_steps_total [OF assms(2,3)] by blast
  have pm: "partial_model sd c now k = model s'"
    using run by (simp add: partial_model_def)
  show ?thesis
  proof (cases "has_solution (response_status (solver (model s')))")
    case True
    have snd: "sound_response (model s') (solver (model s'))"
      using assms(1) by (simp add: solver_sound_def)
    obtain xs where xs: "extract_suggestions db sd (solve_model solver (model s'))
                           (solver (model s')) = Inr xs"
      using extract_total [OF snd True partial_steps_variables [OF run]] by blast
    obtain a where a: "analyze_constraint_failures sd n k = Inr a"
      using analyze_total [OF assms(3)] by blast
    obtain rs where rs: "generate_reasons xs sd c = Inr rs"
      using generate_reasons_total [OF assms(3)] by blast
    show ?thesis
      using True run xs a rs status_string_solution [of solver "model s'"]
      by (simp add: partial_attempt_def create_model_reset pm Let_def)
  next
    case False
    then show ?thesis
      using run status_string_solution [of solver "model s'"]
      by (simp add: partial_attempt_def create_model_reset pm Let_def)
  qed
qed

lemma partial_loop_outcome:
  assumes "solver_sound solver" and "hours_valid sd" and "preference_complete sd"
  shows "case find (\<lambda>k. has_solution (response_status (solver (partial_model sd c now k)))) ks of
           None \<Rightarrow> \<exists>s'. partial_loop solver db sd c now n s ks = (s', None)
         | Some k \<Rightarrow>
             \<exists>s' r. partial_loop solver db sd c now n s ks = (s', Some r)
               \<and> solver_status r = PARTIAL_SOLUTION k
               \<and> total_suggestions r = length (suggested_slots r)
               \<and> confidence_score r
                   = sr_confidence (solve_model solver (partial_model sd c now k))
                     * (real_of_int k / real_of_int n)
               \<and> (\<exists>a rest. constraints_satisfied r = Partial_warning_msg k n a # rest)"
proof (induction ks arbitrary: s)
  case Nil
  then show ?case by simp
next
  case (Cons k ks)
  show ?case
  proof (cases "has_solution (response_status (solver (partial_model sd c now k)))")
    case True
    then show ?thesis
      using partial_attempt_outcome [OF assms, where c = c and now = now and k = k
          and db = db and n = n and ?s0.0 = s]
      by auto
  next
    case False
    then obtain s' where "partial_attempt solver db sd c now n s k = (s', None)"
      using partial_attempt_outcome [OF assms, where c = c and now = now and k = k
          and db = db and n = n and ?s0.0 = s]
      by auto
    then show ?thesis
      using False Cons.IH [of s'] by (auto split: option.splits)
  qed
qed

theorem degradation_outcome:
  assumes "solver_sound solver" and "hours_valid sd" and "preference_complete sd"
    and "weekly_limit_set sd"
  shows "\<exists>r. try_partial_solutions solver db c now sd n s = Inr r
     \<and> (case find (\<lambda>k. has_solution (response_status (solver (partial_model sd c now k))))
               (rev [1 .. n - 1]) of
          None \<Rightarrow> solver_status r = NO_SOLUTION_DETAILED \<and> suggested_slots r = []
                  \<and> total_suggestions r = 0 \<and> confidence_score r = 0
        | Some k \<Rightarrow> solver_status r = PARTIAL_SOLUTION k
                  \<and> total_suggestions r = length (suggested_slots r)
                  \<and> confidence_score r
                      = sr_confidence (solve_model solver (partial_model sd c now k))
                        * (real_of_int k / real_of_int n)
                  \<and> (\<exists>a rest. constraints_satisfied r = Partial_warning_msg k n a # rest))"
proof (cases "find (\<lambda>k. has_solution (response_status (solver (partial_model sd c now k))))
               (rev [1 .. n - 1])")
  case None
  then obtain s' where "partial_loop solver db sd c now n s (rev [1 .. n - 1]) = (s', None)"
    using partial_loop_outcome [OF assms(1-3), where c = c and now = now
        and ks = "rev [1 .. n - 1]" and db = db and n = n and s = s] by auto
  then show ?thesis
    using None failure_analysis_total [OF assms(3,4), of c n "constraint_explanations s'"]
    by (auto simp: try_partial_solutions_def)
next
  case (Some k)
  then show ?thesis
    using partial_loop_outcome [OF assms(1-3), where c = c and now = now
        and ks = "rev [1 .. n - 1]" and db = db and n = n and s = s]
    by (auto simp: try_partial_solutions_def)
qed

end
